theory Spec2Isabelle
  imports Complex_Main
begin

section \<open>Python values, exceptions and the outside world\<close>

text \<open>
  The two scripts talk to a file system, a terminal, a clock and an HTTP server.  All of
  these are gathered in one explicit state, and every source function becomes a function
  from that state to a result (a value or a raised exception) and the state afterwards.
  Strings are byte strings: the pictographs printed by the scripts are their UTF-8 bytes.
\<close>

type_synonym path = string
type_synonym url = string

datatype exc_kind =
    OSError | FileNotFoundError | FileExistsError | IsADirectoryError | PermissionError
  | EOFError | RequestException | HTTPError | JSONDecodeError | TypeError | AttributeError
  | KeyError

text \<open>An instance of Python's \<open>Exception\<close>: its class and the text \<open>str(e)\<close> gives.\<close>

datatype exc = Exc exc_kind string

fun kind :: "exc \<Rightarrow> exc_kind" where
  "kind (Exc k m) = k"

fun str_exc :: "exc \<Rightarrow> string" where
  "str_exc (Exc k m) = m"

text \<open>What \<open>json.loads\<close> and \<open>response.json()\<close> produce: dict, list, str, number, bool, None.\<close>

datatype json =
    JNull | JBool bool | JInt int | JFloat real | JStr string
  | JArr "json list" | JObj "(string \<times> json) list"

datatype node = File string | Dir

datatype http_method = GET | POST

record request =
  verb :: http_method
  target :: url
  timeout :: nat
  form :: "(string \<times> string) list"
  upload :: "(string \<times> string \<times> string \<times> string) list"

text \<open>
  A response as the \<open>requests\<close> library hands it over: the status code, the text that
  \<open>raise_for_status\<close> puts into its \<open>HTTPError\<close>, and the body.
\<close>

record response =
  status_code :: nat
  error_text :: string
  body :: string

text \<open>One printed line: literal text and the values an f-string interpolates.\<close>

datatype piece = T string | V json | N nat | B bool | Secs real | Keys "string list"

type_synonym line = "piece list"

record world =
  files :: "path \<Rightarrow> node option"
  locked :: "path \<Rightarrow> bool"
  tmp_names :: "path list"
  clock :: real
  http :: "request \<Rightarrow> real \<Rightarrow> (exc + response) \<times> real"
  loads :: "string \<Rightarrow> string + json"
  stdin :: "string list"
  stdout :: "line list"

type_synonym 'a io = "world \<Rightarrow> (exc + 'a) \<times> world"

definition io_ret :: "'a \<Rightarrow> 'a io" where
  "io_ret x = (\<lambda>w. (Inr x, w))"

definition io_raise :: "exc \<Rightarrow> 'a io" where
  "io_raise e = (\<lambda>w. (Inl e, w))"

definition io_lift :: "exc + 'a \<Rightarrow> 'a io" where
  "io_lift r = (\<lambda>w. (r, w))"

definition io_bind :: "'a io \<Rightarrow> ('a \<Rightarrow> 'b io) \<Rightarrow> 'b io" where
  "io_bind m f = (\<lambda>w. case m w of (Inl e, w1) \<Rightarrow> (Inl e, w1) | (Inr x, w1) \<Rightarrow> f x w1)"

definition io_then :: "'a io \<Rightarrow> 'b io \<Rightarrow> 'b io" where
  "io_then m k = io_bind m (\<lambda>_. k)"

text \<open>
  \<open>try: m except ...\<close>: the handler table \<open>h\<close> answers \<open>None\<close> for an exception
  no clause matches, which then propagates.
\<close>

definition try_except :: "'a io \<Rightarrow> (exc \<Rightarrow> 'a io option) \<Rightarrow> 'a io" where
  "try_except m h = (\<lambda>w. case m w of
       (Inl e, w1) \<Rightarrow> (case h e of None \<Rightarrow> (Inl e, w1) | Some k \<Rightarrow> k w1)
     | (Inr x, w1) \<Rightarrow> (Inr x, w1))"

text \<open>\<open>try: m finally: c\<close>: \<open>c\<close> runs on both exits; an exception of \<open>c\<close> replaces the outcome.\<close>

definition try_finally :: "'a io \<Rightarrow> unit io \<Rightarrow> 'a io" where
  "try_finally m c = (\<lambda>w. case m w of (r, w1) \<Rightarrow>
       (case c w1 of (Inl e, w2) \<Rightarrow> (Inl e, w2) | (Inr u, w2) \<Rightarrow> (r, w2)))"

definition print :: "line \<Rightarrow> unit io" where
  "print l = (\<lambda>w. (Inr (), w\<lparr>stdout := stdout w @ [l]\<rparr>))"

definition say :: "string \<Rightarrow> unit io" where
  "say s = print [T s]"

subsection \<open>File system\<close>

definition os_path_exists :: "path \<Rightarrow> bool io" where
  "os_path_exists p = (\<lambda>w. (Inr (files w p \<noteq> None), w))"

definition open_read :: "path \<Rightarrow> string io" where
  "open_read p = (\<lambda>w. case files w p of
       None \<Rightarrow> (Inl (Exc FileNotFoundError (''No such file or directory: '' @ p)), w)
     | Some Dir \<Rightarrow> (Inl (Exc IsADirectoryError (''Is a directory: '' @ p)), w)
     | Some (File c) \<Rightarrow> (Inr c, w))"

definition os_unlink :: "path \<Rightarrow> unit io" where
  "os_unlink p = (\<lambda>w. case files w p of
       None \<Rightarrow> (Inl (Exc FileNotFoundError (''No such file or directory: '' @ p)), w)
     | Some Dir \<Rightarrow> (Inl (Exc IsADirectoryError (''Is a directory: '' @ p)), w)
     | Some (File c) \<Rightarrow>
         if locked w p then (Inl (Exc PermissionError (''Permission denied: '' @ p)), w)
         else (Inr (), w\<lparr>files := (files w)(p := None)\<rparr>))"

definition json_loads :: "string \<Rightarrow> json io" where
  "json_loads s = (\<lambda>w. case loads w s of
       Inl m \<Rightarrow> (Inl (Exc JSONDecodeError m), w)
     | Inr j \<Rightarrow> (Inr j, w))"

subsection \<open>Operations on decoded JSON\<close>

fun is_prefix :: "string \<Rightarrow> string \<Rightarrow> bool" where
  "is_prefix [] ys = True"
| "is_prefix (x # xs) [] = False"
| "is_prefix (x # xs) (y # ys) = (x = y \<and> is_prefix xs ys)"

text \<open>\<open>needle in haystack\<close> on two strings.\<close>

fun str_contains :: "string \<Rightarrow> string \<Rightarrow> bool" where
  "str_contains needle [] = (needle = [])"
| "str_contains needle (c # cs) = (is_prefix needle (c # cs) \<or> str_contains needle cs)"

text \<open>\<open>key in x\<close> for a string key: key of a dict, element of a list, substring of a string.\<close>

fun py_contains :: "string \<Rightarrow> json \<Rightarrow> exc + bool" where
  "py_contains k (JObj kvs) = Inr (k \<in> set (map fst kvs))"
| "py_contains k (JArr xs) = Inr (JStr k \<in> set xs)"
| "py_contains k (JStr s) = Inr (str_contains k s)"
| "py_contains k (JInt n) = Inl (Exc TypeError ''argument of type 'int' is not iterable'')"
| "py_contains k (JFloat x) = Inl (Exc TypeError ''argument of type 'float' is not iterable'')"
| "py_contains k (JBool b) = Inl (Exc TypeError ''argument of type 'bool' is not iterable'')"
| "py_contains k JNull = Inl (Exc TypeError ''argument of type 'NoneType' is not iterable'')"

fun join :: "string \<Rightarrow> string list \<Rightarrow> string" where
  "join sep [] = []"
| "join sep [x] = x"
| "join sep (x # y # ys) = x @ sep @ join sep (y # ys)"

subsection \<open>Pictographs\<close>

definition glyph_ok :: string where
  "glyph_ok = [CHR 0xE2, CHR 0x9C, CHR 0x85]"

definition glyph_fail :: string where
  "glyph_fail = [CHR 0xE2, CHR 0x9D, CHR 0x8C]"

definition glyph_search :: string where
  "glyph_search = [CHR 0xF0, CHR 0x9F, CHR 0x94, CHR 0x8D]"

definition glyph_clipboard :: string where
  "glyph_clipboard = [CHR 0xF0, CHR 0x9F, CHR 0x93, CHR 0x8B]"

definition rule50 :: string where
  "rule50 = replicate 50 (CHR ''='')"

definition nl :: string where
  "nl = [CHR 0x0A]"

section \<open>validate_deployment.py\<close>

definition required_files :: "(path \<times> string) list" where
  "required_files =
    [(''vercel.json'', ''Vercel configuration''),
     (''api/index.py'', ''Main FastAPI serverless function''),
     (''requirements-vercel.txt'', ''Python dependencies for Vercel''),
     (''README-vercel.md'', ''Deployment documentation''),
     (''test-vercel.html'', ''Web testing interface''),
     (''example-questions.txt'', ''Example questions file'')]"

text \<open>The loop over \<open>required_files.items()\<close>, with \<open>missing_files\<close> as accumulator.\<close>

fun check_required :: "(path \<times> string) list \<Rightarrow> path list \<Rightarrow> path list io" where
  "check_required [] missing_files = io_ret missing_files"
| "check_required ((file_path, description) # rest) missing_files =
     io_bind (os_path_exists file_path) (\<lambda>ex.
       if ex then
         io_then (say (glyph_ok @ '' '' @ file_path @ '' - '' @ description))
           (check_required rest missing_files)
       else
         io_then (say (glyph_fail @ '' '' @ file_path @ '' - '' @ description @ '' (MISSING)''))
           (check_required rest (missing_files @ [file_path])))"

definition msg_valid_json :: line where
  "msg_valid_json = [T (glyph_ok @ '' vercel.json - Valid JSON syntax'')]"

definition msg_has_sections :: line where
  "msg_has_sections = [T (glyph_ok @ '' vercel.json - Has required builds and routes'')]"

definition msg_missing_sections :: line where
  "msg_missing_sections = [T (glyph_fail @ '' vercel.json - Missing builds or routes configuration'')]"

definition msg_config_not_found :: line where
  "msg_config_not_found = [T (glyph_fail @ '' vercel.json - File not found'')]"

definition msg_invalid_json :: "exc \<Rightarrow> line" where
  "msg_invalid_json e = [T (glyph_fail @ '' vercel.json - Invalid JSON: '' @ str_exc e)]"

text \<open>
  The first \<open>try\<close> block.  Only \<open>FileNotFoundError\<close> and \<open>json.JSONDecodeError\<close> have a
  clause; \<open>and\<close> evaluates its right operand only when the left one is true.
\<close>

definition check_vercel_json :: "unit io" where
  "check_vercel_json =
     try_except
       (io_bind (open_read ''vercel.json'') (\<lambda>text.
        io_bind (json_loads text) (\<lambda>config.
        io_then (print msg_valid_json)
       (io_bind (io_bind (io_lift (py_contains ''builds'' config)) (\<lambda>b.
                   if b then io_lift (py_contains ''routes'' config) else io_ret False))
          (\<lambda>both. if both then print msg_has_sections else print msg_missing_sections)))))
       (\<lambda>e. case kind e of
               FileNotFoundError \<Rightarrow> Some (print msg_config_not_found)
             | JSONDecodeError \<Rightarrow> Some (print (msg_invalid_json e))
             | _ \<Rightarrow> None)"

definition required_imports :: "string list" where
  "required_imports = [''FastAPI'', ''UploadFile'', ''File'', ''HTTPException'']"

fun check_imports :: "string \<Rightarrow> string list \<Rightarrow> string list \<Rightarrow> string list io" where
  "check_imports content [] missing_imports = io_ret missing_imports"
| "check_imports content (imp # rest) missing_imports =
     (if str_contains imp content then
        io_then (say (glyph_ok @ '' api/index.py - Has '' @ imp @ '' import''))
          (check_imports content rest missing_imports)
      else
        io_then (say (glyph_fail @ '' api/index.py - Missing '' @ imp @ '' import''))
          (check_imports content rest (missing_imports @ [imp])))"

definition check_api_index :: "unit io" where
  "check_api_index =
     try_except
       (io_bind (open_read ''api/index.py'') (\<lambda>content.
        io_bind (check_imports content required_imports []) (\<lambda>missing_imports. io_ret ())))
       (\<lambda>e. case kind e of
               FileNotFoundError \<Rightarrow> Some (say (glyph_fail @ '' api/index.py - File not found''))
             | _ \<Rightarrow> None)"

definition ready_lines :: "line list" where
  "ready_lines = map (\<lambda>s. [T s])
    [glyph_ok @ '' All required files present'',
     nl @ glyph_clipboard @ '' Ready for Vercel deployment!'',
     nl @ ''Next steps:'',
     ''1. Install Vercel CLI: npm install -g vercel'',
     ''2. Login to Vercel: vercel login'',
     ''3. Deploy: vercel --prod'',
     ''4. Set environment variables in Vercel dashboard:'',
     ''   - AIPIPE_API_KEY (recommended)'',
     ''   - OPENAI_API_KEY (alternative)'',
     ''5. Test deployment with test-vercel.html'']"

fun print_all :: "line list \<Rightarrow> unit io" where
  "print_all [] = io_ret ()"
| "print_all (l # ls) = io_then (print l) (print_all ls)"

definition validate_vercel_files :: "bool io" where
  "validate_vercel_files =
     io_then (say (glyph_search @ '' Validating Vercel deployment files...''))
    (io_bind (check_required required_files []) (\<lambda>missing_files.
     io_then check_vercel_json
    (io_then check_api_index
    (io_then (say (nl @ rule50))
    (io_then (say ''VALIDATION SUMMARY'')
    (io_then (say rule50)
    (if missing_files \<noteq> [] then
       io_then (say (glyph_fail @ '' Missing files: '' @ join '', '' missing_files))
         (io_ret False)
     else
       io_then (print_all ready_lines) (io_ret True))))))))"

section \<open>test_deployment.py\<close>

subsection \<open>More operations on decoded JSON\<close>

definition not_dict :: "string \<Rightarrow> exc" where
  "not_dict attr = Exc AttributeError (''object has no attribute '' @ attr)"

text \<open>\<open>x.get(k, d)\<close>: only a dict has the method.\<close>

fun py_get :: "json \<Rightarrow> string \<Rightarrow> json \<Rightarrow> exc + json" where
  "py_get (JObj kvs) k d = Inr (case map_of kvs k of None \<Rightarrow> d | Some v \<Rightarrow> v)"
| "py_get x k d = Inl (not_dict ''get'')"

text \<open>\<open>list(x.keys())\<close>.\<close>

fun py_keys :: "json \<Rightarrow> exc + string list" where
  "py_keys (JObj kvs) = Inr (map fst kvs)"
| "py_keys x = Inl (not_dict ''keys'')"

text \<open>\<open>x[k]\<close> for a string key.\<close>

fun py_item :: "json \<Rightarrow> string \<Rightarrow> exc + json" where
  "py_item (JObj kvs) k = (case map_of kvs k of None \<Rightarrow> Inl (Exc KeyError k) | Some v \<Rightarrow> Inr v)"
| "py_item x k = Inl (Exc TypeError ''indices must be integers or the object is not subscriptable'')"

text \<open>What a \<open>for\<close> loop (or \<open>len\<close>, \<open>join\<close>) sees: elements, characters or keys.\<close>

fun py_iter :: "json \<Rightarrow> exc + json list" where
  "py_iter (JArr xs) = Inr xs"
| "py_iter (JStr s) = Inr (map (\<lambda>c. JStr [c]) s)"
| "py_iter (JObj kvs) = Inr (map (\<lambda>kv. JStr (fst kv)) kvs)"
| "py_iter x = Inl (Exc TypeError ''object is not iterable'')"

fun py_len :: "json \<Rightarrow> exc + nat" where
  "py_len (JArr xs) = Inr (length xs)"
| "py_len (JStr s) = Inr (length s)"
| "py_len (JObj kvs) = Inr (length kvs)"
| "py_len x = Inl (Exc TypeError ''object has no len()'')"

text \<open>Truth value of a decoded value, as \<open>if x:\<close> and \<open>bool(x)\<close> take it.\<close>

fun truthy :: "json \<Rightarrow> bool" where
  "truthy JNull = False"
| "truthy (JBool b) = b"
| "truthy (JInt n) = (n \<noteq> 0)"
| "truthy (JFloat x) = (x \<noteq> 0)"
| "truthy (JStr s) = (s \<noteq> [])"
| "truthy (JArr xs) = (xs \<noteq> [])"
| "truthy (JObj kvs) = (kvs \<noteq> [])"

fun all_strs :: "json list \<Rightarrow> string list option" where
  "all_strs [] = Some []"
| "all_strs (JStr s # xs) = (case all_strs xs of None \<Rightarrow> None | Some ss \<Rightarrow> Some (s # ss))"
| "all_strs (x # xs) = None"

text \<open>\<open>sep.join(x)\<close>: every item must be a string.\<close>

definition py_join :: "string \<Rightarrow> json \<Rightarrow> exc + string" where
  "py_join sep x = (case py_iter x of
       Inl e \<Rightarrow> Inl (Exc TypeError ''can only join an iterable'')
     | Inr xs \<Rightarrow> (case all_strs xs of
           None \<Rightarrow> Inl (Exc TypeError ''sequence item: expected str instance'')
         | Some ss \<Rightarrow> Inr (join sep ss)))"

subsection \<open>Terminal, clock and HTTP\<close>

definition glyph_hospital :: string where
  "glyph_hospital = [CHR 0xF0, CHR 0x9F, CHR 0x8F, CHR 0xA5]"

definition glyph_gear :: string where
  "glyph_gear = [CHR 0xE2, CHR 0x9A, CHR 0x99, CHR 0xEF, CHR 0xB8, CHR 0x8F]"

definition glyph_outbox :: string where
  "glyph_outbox = [CHR 0xF0, CHR 0x9F, CHR 0x93, CHR 0xA4]"

definition glyph_tube :: string where
  "glyph_tube = [CHR 0xF0, CHR 0x9F, CHR 0xA7, CHR 0xAA]"

definition glyph_rocket :: string where
  "glyph_rocket = [CHR 0xF0, CHR 0x9F, CHR 0x9A, CHR 0x80]"

definition glyph_house :: string where
  "glyph_house = [CHR 0xF0, CHR 0x9F, CHR 0x8F, CHR 0xA0]"

definition glyph_hourglass :: string where
  "glyph_hourglass = [CHR 0xE2, CHR 0x8F, CHR 0xB3]"

text \<open>\<open>input(prompt)\<close>: writes the prompt, reads one line, \<open>EOFError\<close> at end of input.\<close>

definition input :: "string \<Rightarrow> string io" where
  "input prompt = (\<lambda>w. case stdin w of
       [] \<Rightarrow> (Inl (Exc EOFError ''EOF when reading a line''), w\<lparr>stdout := stdout w @ [[T prompt]]\<rparr>)
     | l # ls \<Rightarrow> (Inr l, w\<lparr>stdin := ls, stdout := stdout w @ [[T prompt]]\<rparr>))"

definition time_time :: "real io" where
  "time_time = (\<lambda>w. (Inr (clock w), w))"

text \<open>
  One blocking request: the server (or the network, or the timeout) decides the outcome
  and how long it took; the clock moves on by that much.
\<close>

definition requests_send :: "request \<Rightarrow> response io" where
  "requests_send rq = (\<lambda>w. case http w rq (clock w) of
       (r, dt) \<Rightarrow> (r, w\<lparr>clock := clock w + dt\<rparr>))"

definition requests_get :: "url \<Rightarrow> nat \<Rightarrow> response io" where
  "requests_get u tmo =
     requests_send \<lparr>verb = GET, target = u, timeout = tmo, form = [], upload = []\<rparr>"

definition requests_post ::
  "url \<Rightarrow> (string \<times> string \<times> string \<times> string) list \<Rightarrow> (string \<times> string) list \<Rightarrow> nat \<Rightarrow> response io" where
  "requests_post u fls dat tmo =
     requests_send \<lparr>verb = POST, target = u, timeout = tmo, form = dat, upload = fls\<rparr>"

text \<open>\<open>response.raise_for_status()\<close> raises \<open>HTTPError\<close> for the codes 400 to 599.\<close>

definition raise_for_status :: "response \<Rightarrow> unit io" where
  "raise_for_status r =
     (if 400 \<le> status_code r \<and> status_code r < 600
      then io_raise (Exc HTTPError (error_text r)) else io_ret ())"

definition response_json :: "response \<Rightarrow> json io" where
  "response_json r = json_loads (body r)"

subsection \<open>Workload file and probes\<close>

definition workload_content :: string where
  "workload_content = join nl
    [''Analyze the GDP data from https://en.wikipedia.org/wiki/List_of_countries_by_GDP_(nominal)'',
     '''',
     ''Questions to answer:'',
     ''1. Which country has the highest GDP?'',
     ''2. What are the top 10 countries by GDP?'',
     ''3. What is the total GDP of the top 5 countries?'',
     ''4. Create a visualization showing GDP comparison of top 10 countries'',
     ''5. Which countries have GDP over $5 trillion?'']"

text \<open>
  \<open>tempfile.NamedTemporaryFile(delete=False)\<close> takes the first candidate name that does
  not exist yet; the candidates are the environment's.  Then the content is written and the
  file closed.
\<close>

definition create_test_questions_file :: "path io" where
  "create_test_questions_file = (\<lambda>w. case find (\<lambda>p. files w p = None) (tmp_names w) of
       None \<Rightarrow> (Inl (Exc FileExistsError ''No usable temporary file name found''), w)
     | Some p \<Rightarrow> (Inr p, w\<lparr>files := (files w)(p \<mapsto> File workload_content)\<rparr>))"

record probe_result =
  status :: string
  data :: "json option"
  error :: "string option"

definition success_result :: "json \<Rightarrow> probe_result" where
  "success_result result = \<lparr>status = ''success'', data = Some result, error = None\<rparr>"

definition error_result :: "exc \<Rightarrow> probe_result" where
  "error_result e = \<lparr>status = ''error'', data = None, error = Some (str_exc e)\<rparr>"

definition test_health_endpoint :: "url \<Rightarrow> probe_result io" where
  "test_health_endpoint base_url =
     io_then (say (glyph_hospital @ '' Testing health endpoint...''))
    (try_except
       (io_bind (requests_get (base_url @ ''/health'') 30) (\<lambda>response.
        io_then (raise_for_status response)
       (io_bind (response_json response) (\<lambda>result.
        io_then (say (glyph_ok @ '' Health check passed''))
       (io_ret (success_result result))))))
       (\<lambda>e. Some (io_then (say (glyph_fail @ '' Health check failed: '' @ str_exc e))
                     (io_ret (error_result e)))))"

definition test_capabilities_endpoint :: "url \<Rightarrow> probe_result io" where
  "test_capabilities_endpoint base_url =
     io_then (say (glyph_gear @ '' Testing capabilities endpoint...''))
    (try_except
       (io_bind (requests_get (base_url @ ''/api/workflow-capabilities'') 30) (\<lambda>response.
        io_then (raise_for_status response)
       (io_bind (response_json response) (\<lambda>result.
        io_then (say (glyph_ok @ '' Capabilities check passed''))
       (io_ret (success_result result))))))
       (\<lambda>e. Some (io_then (say (glyph_fail @ '' Capabilities check failed: '' @ str_exc e))
                     (io_ret (error_result e)))))"

text \<open>The \<open>try\<close>/\<open>except\<close> statement of the main probe, for a workload file at a path.\<close>

definition post_questions :: "url \<Rightarrow> path \<Rightarrow> probe_result io" where
  "post_questions base_url questions_file_path =
     try_except
       (io_bind (open_read questions_file_path) (\<lambda>questions_file.
        io_then (say (glyph_outbox @ '' Uploading test data...''))
       (io_bind (requests_post (base_url @ ''/api/'')
                   [(''questions_txt'', ''questions.txt'', questions_file, ''text/plain'')]
                   [(''enable_iterative_reasoning'', ''false''), (''enable_logging'', ''true'')]
                   300) (\<lambda>response.
        io_then (raise_for_status response)
       (io_bind (response_json response) (\<lambda>result.
        io_then (say (glyph_ok @ '' Main API test passed''))
       (io_ret (success_result result))))))))
       (\<lambda>e. Some (io_then (say (glyph_fail @ '' Main API test failed: '' @ str_exc e))
                     (io_ret (error_result e))))"

text \<open>Its \<open>finally\<close> clause: \<open>try: os.unlink(path)\<close> with a bare \<open>except: pass\<close>.\<close>

definition remove_quietly :: "path \<Rightarrow> unit io" where
  "remove_quietly questions_file_path =
     try_except (os_unlink questions_file_path) (\<lambda>e. Some (io_ret ()))"

definition test_main_api_endpoint :: "url \<Rightarrow> probe_result io" where
  "test_main_api_endpoint base_url =
     io_then (say (glyph_search @ '' Testing main API endpoint...''))
    (io_bind create_test_questions_file (\<lambda>questions_file_path.
     try_finally
       (post_questions base_url questions_file_path)
       (remove_quietly questions_file_path)))"

subsection \<open>Environment runners\<close>

datatype bundle_value = Probe probe_result | Scalar real

type_synonym env_bundle = "(string \<times> bundle_value) list"

text \<open>\<open>r['data'].get(k, d)\<close> on a probe result.\<close>

definition data_get :: "probe_result \<Rightarrow> string \<Rightarrow> json \<Rightarrow> exc + json" where
  "data_get r k d = (case data r of
       None \<Rightarrow> Inl (Exc KeyError ''data'')
     | Some x \<Rightarrow> py_get x k d)"

definition local_health_report :: "probe_result \<Rightarrow> unit io" where
  "local_health_report health_result =
     io_then (say (''Health: '' @ status health_result))
      (if status health_result = ''success'' then
         io_bind (io_lift (data_get health_result ''orchestrator'' (JStr ''unknown''))) (\<lambda>v.
         io_then (print [T ''  Orchestrator: '', V v])
        (io_bind (io_lift (data_get health_result ''workflows_available'' (JInt 0))) (\<lambda>n.
         print [T ''  Workflows: '', V n])))
       else io_ret ())"

definition local_capabilities_report :: "probe_result \<Rightarrow> unit io" where
  "local_capabilities_report cap_result =
     io_then (say (''Capabilities: '' @ status cap_result))
      (if status cap_result = ''success'' then
         io_bind (io_lift (data_get cap_result ''available_workflows'' (JArr []))) (\<lambda>workflows.
         io_bind (io_lift (py_len workflows)) (\<lambda>n.
         io_then (print [T ''  Available workflows: '', N n])
        (io_bind (io_lift (py_iter workflows)) (\<lambda>items.
         print_all (map (\<lambda>workflow. [T ''    - '', V workflow]) items)))))
       else io_ret ())"

text \<open>The three lines every successful main probe is reported with, in both runners.\<close>

definition task_report :: "probe_result \<Rightarrow> unit io" where
  "task_report api_result =
     io_bind (io_lift (data_get api_result ''task_id'' (JStr ''unknown''))) (\<lambda>task_id.
     io_bind (io_lift (data_get api_result ''workflow_type'' (JStr ''unknown''))) (\<lambda>workflow_type.
     io_bind (io_lift (data_get api_result ''status'' (JStr ''unknown''))) (\<lambda>st.
     io_then (print [T ''  Task ID: '', V task_id])
    (io_then (print [T ''  Workflow: '', V workflow_type])
             (print [T ''  Status: '', V st])))))"

definition result_flag :: "json \<Rightarrow> string \<Rightarrow> string \<Rightarrow> unit io" where
  "result_flag result k label =
     io_bind (io_lift (py_contains k result)) (\<lambda>present.
       if present then
         io_bind (io_lift (py_item result k)) (\<lambda>v. print [T label, B (truthy v)])
       else io_ret ())"

definition local_main_report :: "probe_result \<Rightarrow> unit io" where
  "local_main_report api_result =
     io_then (say (''Main API: '' @ status api_result))
      (if status api_result = ''success'' then
         io_then (task_report api_result)
        (io_bind (io_lift (data_get api_result ''result'' (JObj []))) (\<lambda>result.
           if truthy result then
             io_bind (io_lift (py_keys result)) (\<lambda>ks.
             io_then (print [T ''  Result keys: '', Keys ks])
            (io_then (result_flag result ''results'' ''  Analysis results available: '')
                     (result_flag result ''plot_base64'' ''  Visualization generated: '')))
           else io_ret ()))
       else io_ret ())"

definition local_url :: url where
  "local_url = ''http://localhost:8000''"

definition test_local_server :: "env_bundle io" where
  "test_local_server =
     io_then (say (glyph_tube @ '' Testing local server at '' @ local_url))
    (io_then (say (nl @ rule50))
    (io_then (say ''LOCAL SERVER TESTS'')
    (io_then (say rule50)
    (io_bind (test_health_endpoint local_url) (\<lambda>health_result.
     io_then (local_health_report health_result)
    (io_bind (test_capabilities_endpoint local_url) (\<lambda>cap_result.
     io_then (local_capabilities_report cap_result)
    (io_bind (test_main_api_endpoint local_url) (\<lambda>api_result.
     io_then (local_main_report api_result)
    (io_ret [(''health'', Probe health_result),
             (''capabilities'', Probe cap_result),
             (''main_api'', Probe api_result)]))))))))))"

definition vercel_health_report :: "probe_result \<Rightarrow> unit io" where
  "vercel_health_report health_result =
     io_then (say (''Health: '' @ status health_result))
      (if status health_result = ''success'' then
         io_bind (io_lift (data_get health_result ''platform'' (JStr ''unknown''))) (\<lambda>p.
         io_then (print [T ''  Platform: '', V p])
        (io_bind (io_lift (data_get health_result ''orchestrator'' (JStr ''unknown''))) (\<lambda>v.
         io_then (print [T ''  Orchestrator: '', V v])
        (io_bind (io_lift (data_get health_result ''workflows_available'' (JInt 0))) (\<lambda>n.
         print [T ''  Workflows: '', V n])))))
       else io_ret ())"

definition vercel_capabilities_report :: "probe_result \<Rightarrow> unit io" where
  "vercel_capabilities_report cap_result =
     io_then (say (''Capabilities: '' @ status cap_result))
      (if status cap_result = ''success'' then
         io_bind (io_lift (data_get cap_result ''available_workflows'' (JArr []))) (\<lambda>workflows.
         io_bind (io_lift (py_len workflows)) (\<lambda>n.
         io_then (print [T ''  Available workflows: '', N n])
        (io_bind (io_lift (data_get cap_result ''platform'' (JStr ''unknown''))) (\<lambda>platform.
         print [T ''  Platform: '', V platform]))))
       else io_ret ())"

definition vercel_main_report :: "probe_result \<Rightarrow> real \<Rightarrow> unit io" where
  "vercel_main_report api_result duration =
     io_then (print [T (''Main API: '' @ status api_result @ '' (took ''), Secs duration, T ''s)''])
      (if status api_result = ''success'' then
         io_then (task_report api_result)
        (io_bind (io_lift (data_get api_result ''processing_info'' (JObj []))) (\<lambda>proc_info.
           if truthy proc_info then
             io_bind (io_lift (py_get proc_info ''platform'' (JStr ''unknown''))) (\<lambda>platform.
             io_then (print [T ''  Platform: '', V platform])
            (io_bind (io_lift (py_get proc_info ''enhanced_features'' (JArr []))) (\<lambda>features.
             io_bind (io_lift (py_join '', '' features)) (\<lambda>joined.
             say (''  Features: '' @ joined)))))
           else io_ret ()))
       else io_ret ())"

definition test_vercel_deployment :: "url \<Rightarrow> env_bundle io" where
  "test_vercel_deployment vercel_url =
     io_then (say (glyph_rocket @ '' Testing Vercel deployment at '' @ vercel_url))
    (io_then (say (nl @ rule50))
    (io_then (say ''VERCEL DEPLOYMENT TESTS'')
    (io_then (say rule50)
    (io_bind (test_health_endpoint vercel_url) (\<lambda>health_result.
     io_then (vercel_health_report health_result)
    (io_bind (test_capabilities_endpoint vercel_url) (\<lambda>cap_result.
     io_then (vercel_capabilities_report cap_result)
    (io_then (say (glyph_hourglass @ '' Testing main API (may take longer on cold start)...''))
    (io_bind time_time (\<lambda>start_time.
     io_bind (test_main_api_endpoint vercel_url) (\<lambda>api_result.
     io_bind time_time (\<lambda>end_time.
     let duration = end_time - start_time in
     io_then (vercel_main_report api_result duration)
    (io_ret [(''health'', Probe health_result),
             (''capabilities'', Probe cap_result),
             (''main_api'', Probe api_result),
             (''duration'', Scalar duration)])))))))))))))"

subsection \<open>Entry point\<close>

record args =
  arg_local :: bool
  arg_vercel :: "string option"
  arg_both :: bool

type_synonym results = "(string \<times> env_bundle) list"

text \<open>\<open>d[k] = v\<close> on an insertion-ordered dict: an existing key keeps its place.\<close>

fun dict_set :: "string \<Rightarrow> 'v \<Rightarrow> (string \<times> 'v) list \<Rightarrow> (string \<times> 'v) list" where
  "dict_set k v [] = [(k, v)]"
| "dict_set k v ((k', v') # kvs) =
     (if k' = k then (k', v) # kvs else (k', v') # dict_set k v kvs)"

definition example_url :: url where
  "example_url = ''https://your-project-name.vercel.app''"

definition run_local :: "args \<Rightarrow> results \<Rightarrow> results io" where
  "run_local a results =
     (if arg_local a \<or> arg_both a then
        io_then (say (nl @ glyph_house @ '' Starting local server tests...''))
       (io_then (say ''Make sure your local server is running with:'')
       (io_then (say ''  uvicorn api.index:app --reload'')
       (io_then (say '''')
       (io_then (input ''Press Enter when server is ready...'')
       (io_bind test_local_server (\<lambda>b. io_ret (dict_set ''local'' b results)))))))
      else io_ret results)"

text \<open>\<open>if args.vercel:\<close> is false for an absent option and for the empty string.\<close>

definition run_vercel :: "args \<Rightarrow> results \<Rightarrow> results io" where
  "run_vercel a results =
     (case arg_vercel a of
        None \<Rightarrow> io_ret results
      | Some u \<Rightarrow>
          if u \<noteq> [] then
            io_then (say (nl @ glyph_rocket @ '' Starting Vercel deployment tests...''))
           (io_bind (test_vercel_deployment u) (\<lambda>b. io_ret (dict_set ''vercel'' b results)))
          else io_ret results)"

definition run_both :: "args \<Rightarrow> results \<Rightarrow> results io" where
  "run_both a results =
     (if arg_both a then
        io_then (say (nl @ glyph_rocket @ '' Starting example Vercel deployment tests...''))
       (io_then (say (''Testing example URL: '' @ example_url))
       (io_then (say ''(This will fail unless you update the URL)'')
       (io_bind (test_vercel_deployment example_url) (\<lambda>b.
          io_ret (dict_set ''vercel'' b results)))))
      else io_ret results)"

text \<open>The part of \<open>main\<close> that fills \<open>results\<close>.\<close>

definition collect :: "args \<Rightarrow> results io" where
  "collect a =
     io_bind (run_local a []) (\<lambda>r1.
     io_bind (run_vercel a r1) (\<lambda>r2.
     run_both a r2))"

definition upper_char :: "char \<Rightarrow> char" where
  "upper_char c =
     (let n = (of_char c :: nat) in if 97 \<le> n \<and> n \<le> 122 then char_of (n - 32) else c)"

definition upper :: "string \<Rightarrow> string" where
  "upper s = map upper_char s"

text \<open>\<open>test_result['status']\<close>: only a dict can be subscripted with a string.\<close>

fun as_probe :: "bundle_value \<Rightarrow> exc + probe_result" where
  "as_probe (Probe r) = Inr r"
| "as_probe (Scalar d) = Inl (Exc TypeError ''float object is not subscriptable'')"

fun summary_tests :: "env_bundle \<Rightarrow> unit io" where
  "summary_tests [] = io_ret ()"
| "summary_tests ((test_name, test_result) # rest) =
     (if test_name = ''duration'' then summary_tests rest
      else
        io_bind (io_lift (as_probe test_result)) (\<lambda>r.
        io_then (say (''  '' @ (if status r = ''success'' then glyph_ok else glyph_fail)
                      @ '' '' @ test_name @ '': '' @ status r))
       (io_then (if status r = ''error''
                 then say (''    Error: '' @ (case error r of None \<Rightarrow> ''Unknown'' | Some m \<Rightarrow> m))
                 else io_ret ())
                (summary_tests rest))))"

fun summary_envs :: "results \<Rightarrow> unit io" where
  "summary_envs [] = io_ret ()"
| "summary_envs ((env, env_results) # rest) =
     io_then (say (nl @ upper env @ '' Environment:''))
    (io_then (summary_tests env_results) (summary_envs rest))"

text \<open>The values of a bundle that are dicts (\<open>isinstance(r, dict)\<close>).\<close>

fun probe_values :: "env_bundle \<Rightarrow> probe_result list" where
  "probe_values [] = []"
| "probe_values ((k, Probe r) # rest) = r # probe_values rest"
| "probe_values ((k, Scalar d) # rest) = probe_values rest"

definition all_success :: "env_bundle \<Rightarrow> bool" where
  "all_success b = list_all (\<lambda>r. status r = ''success'') (probe_values b)"

definition msg_local_passed :: line where
  "msg_local_passed = [T (glyph_ok @ '' Local tests passed - ready for Vercel deployment'')]"

definition msg_local_failed :: line where
  "msg_local_failed = [T (glyph_fail @ '' Local tests failed - fix issues before deploying'')]"

definition local_passed_lines :: "line list" where
  "local_passed_lines =
     [msg_local_passed,
      [T ''   Run: deploy-vercel.bat (Windows) or deploy-vercel.sh (Linux/Mac)'']]"

definition local_failed_lines :: "line list" where
  "local_failed_lines =
     [msg_local_failed,
      [T ''   Check dependencies: pip install -r requirements-vercel.txt''],
      [T ''   Check server: uvicorn api.index:app --reload'']]"

definition local_guidance :: "results \<Rightarrow> unit io" where
  "local_guidance results =
     (if (case map_of results ''local'' of None \<Rightarrow> False | Some b \<Rightarrow> all_success b)
      then print_all local_passed_lines
      else print_all local_failed_lines)"

definition msg_vercel_ok :: line where
  "msg_vercel_ok = [T (glyph_ok @ '' Vercel deployment working correctly'')]"

definition msg_cold_start :: "real \<Rightarrow> line" where
  "msg_cold_start duration =
     [T (glyph_hourglass @ '' Cold start took ''), Secs duration,
      T ''s - this is normal for first request'']"

definition vercel_failed_lines :: "line list" where
  "vercel_failed_lines =
     [[T (glyph_fail @ '' Vercel deployment has issues'')],
      [T ''   Check environment variables in Vercel dashboard''],
      [T ''   Check deployment logs in Vercel'']]"

text \<open>
  \<open>results['vercel'].get('duration', 0)\<close> followed by \<open>duration > 10\<close>: a number compares,
  a dict does not.
\<close>

definition get_duration :: "env_bundle \<Rightarrow> exc + real" where
  "get_duration b = (case map_of b ''duration'' of
       None \<Rightarrow> Inr 0
     | Some (Scalar d) \<Rightarrow> Inr d
     | Some (Probe r) \<Rightarrow> Inl (Exc TypeError ''> not supported between dict and int''))"

definition vercel_guidance :: "results \<Rightarrow> unit io" where
  "vercel_guidance results =
     (case map_of results ''vercel'' of
        None \<Rightarrow> io_ret ()
      | Some b \<Rightarrow>
          if all_success b then
            io_then (print msg_vercel_ok)
           (io_bind (io_lift (get_duration b)) (\<lambda>duration.
              if duration > 10 then print (msg_cold_start duration) else io_ret ()))
          else print_all vercel_failed_lines)"

definition summary :: "results \<Rightarrow> unit io" where
  "summary results =
     io_then (say (nl @ rule50))
    (io_then (say ''TEST SUMMARY'')
    (io_then (say rule50)
    (io_then (summary_envs results)
    (io_then (say (nl @ glyph_clipboard @ '' Next steps:''))
    (io_then (local_guidance results)
             (vercel_guidance results))))))"

definition main :: "args \<Rightarrow> unit io" where
  "main a =
     io_then (say (glyph_tube @ '' API Testing Suite for TDS Project2''))
    (io_then (say rule50)
    (io_bind (collect a) (\<lambda>results. summary results)))"
section \<open>Requests, outcomes and sample environments\<close>

definition get_request :: "url \<Rightarrow> nat \<Rightarrow> request" where
  "get_request u tmo = \<lparr>verb = GET, target = u, timeout = tmo, form = [], upload = []\<rparr>"

definition health_request :: "url \<Rightarrow> request" where
  "health_request base_url = get_request (base_url @ ''/health'') 30"

definition capabilities_request :: "url \<Rightarrow> request" where
  "capabilities_request base_url = get_request (base_url @ ''/api/workflow-capabilities'') 30"

definition main_request :: "url \<Rightarrow> request" where
  "main_request base_url =
     \<lparr>verb = POST, target = base_url @ ''/api/'', timeout = 300,
      form = [(''enable_iterative_reasoning'', ''false''), (''enable_logging'', ''true'')],
      upload = [(''questions_txt'', ''questions.txt'', workload_content, ''text/plain'')]\<rparr>"

definition classify :: "(string \<Rightarrow> string + json) \<Rightarrow> exc + response \<Rightarrow> probe_result" where
  "classify dec outcome = (case outcome of
       Inl e \<Rightarrow> \<lparr>status = ''error'', data = None, error = Some (str_exc e)\<rparr>
     | Inr r \<Rightarrow>
         if 400 \<le> status_code r \<and> status_code r < 600
         then \<lparr>status = ''error'', data = None, error = Some (error_text r)\<rparr>
         else (case dec (body r) of
                 Inl m \<Rightarrow> \<lparr>status = ''error'', data = None, error = Some m\<rparr>
               | Inr j \<Rightarrow> \<lparr>status = ''success'', data = Some j, error = None\<rparr>))"


definition demo_loads :: "string \<Rightarrow> string + json" where
  "demo_loads s =
     (if s = ''{}'' then Inr (JObj [])
      else if s = ''[]'' then Inr (JArr [])
      else if s = ''42'' then Inr (JInt 42)
      else if s = ''null'' then Inr JNull
      else if s = ''[1, 2]'' then Inr (JArr [JInt 1, JInt 2])
      else Inl ''Expecting value: line 1 column 1 (char 0)'')"

definition demo_world :: "(request \<Rightarrow> real \<Rightarrow> (exc + response) \<times> real) \<Rightarrow> world" where
  "demo_world h =
     \<lparr>files = (\<lambda>p. None), locked = (\<lambda>p. False), tmp_names = [''/tmp/tmpq.txt''],
      clock = 100, http = h, loads = demo_loads, stdin = [''''], stdout = []\<rparr>"

definition srv_ok :: "request \<Rightarrow> real \<Rightarrow> (exc + response) \<times> real" where
  "srv_ok rq t =
     (Inr \<lparr>status_code = 200, error_text = '''', body = ''{}''\<rparr>,
      if verb rq = POST then 12 else 1)"

definition srv_down :: "request \<Rightarrow> real \<Rightarrow> (exc + response) \<times> real" where
  "srv_down rq t = (Inl (Exc RequestException ''Connection refused''), 0)"

definition srv_500 :: "request \<Rightarrow> real \<Rightarrow> (exc + response) \<times> real" where
  "srv_500 rq t =
     (Inr \<lparr>status_code = 500, error_text = ''500 Server Error: Internal Server Error'',
           body = ''{}''\<rparr>, 1)"

definition srv_html :: "request \<Rightarrow> real \<Rightarrow> (exc + response) \<times> real" where
  "srv_html rq t = (Inr \<lparr>status_code = 200, error_text = '''', body = ''<html>''\<rparr>, 1)"

text \<open>
  Three more servers: one answers 200 with a two-element list, one answers 300 (a status
  that is neither 2xx nor an error for \<open>raise_for_status\<close>) with the body \<open>{}\<close>, one answers
  200 with the body \<open>null\<close>.
\<close>

definition srv_pair :: "request \<Rightarrow> real \<Rightarrow> (exc + response) \<times> real" where
  "srv_pair rq t = (Inr \<lparr>status_code = 200, error_text = '''', body = ''[1, 2]''\<rparr>, 1)"

definition srv_300 :: "request \<Rightarrow> real \<Rightarrow> (exc + response) \<times> real" where
  "srv_300 rq t = (Inr \<lparr>status_code = 300, error_text = '''', body = ''{}''\<rparr>, 1)"

definition srv_null :: "request \<Rightarrow> real \<Rightarrow> (exc + response) \<times> real" where
  "srv_null rq t = (Inr \<lparr>status_code = 200, error_text = '''', body = ''null''\<rparr>, 1)"

text \<open>The sample server, with a temporary file that cannot be deleted.\<close>

definition locked_world :: world where
  "locked_world = (demo_world srv_ok)\<lparr>locked := (\<lambda>p. p = ''/tmp/tmpq.txt'')\<rparr>"

text \<open>A checkout with all six required files, \<open>vercel.json\<close> holding the given text.\<close>

definition repo_files :: "string \<Rightarrow> path \<Rightarrow> node option" where
  "repo_files cfg p =
     (if p = ''vercel.json'' then Some (File cfg)
      else if p \<in> set (map fst required_files) then Some (File '''')
      else None)"

definition repo_world :: "string \<Rightarrow> world" where
  "repo_world cfg = (demo_world srv_down)\<lparr>files := repo_files cfg\<rparr>"

text \<open>A server that answers every request with an empty JSON list.\<close>

definition srv_list :: "request \<Rightarrow> real \<Rightarrow> (exc + response) \<times> real" where
  "srv_list rq t = (Inr \<lparr>status_code = 200, error_text = '''', body = ''[]''\<rparr>, 1)"


text \<open>A computation that only prints, the same lines and the same outcome in every world.\<close>

definition printer :: "'a io \<Rightarrow> bool" where
  "printer m = (\<exists>r ls. \<forall>w. m w = (r, w\<lparr>stdout := stdout w @ ls\<rparr>))"

text \<open>The lines a computation adds to the terminal when run in a world.\<close>

definition printed :: "'a io \<Rightarrow> world \<Rightarrow> line list" where
  "printed m w = drop (length (stdout w)) (stdout (snd (m w)))"

text \<open>Sample bundles and results as the runners build them.\<close>

definition ok_result :: probe_result where
  "ok_result = \<lparr>status = ''success'', data = Some (JObj []), error = None\<rparr>"

definition refused_result :: probe_result where
  "refused_result = \<lparr>status = ''error'', data = None, error = Some ''Connection refused''\<rparr>"

definition ok_local_bundle :: env_bundle where
  "ok_local_bundle =
     [(''health'', Probe ok_result), (''capabilities'', Probe ok_result),
      (''main_api'', Probe ok_result)]"

definition failed_local_bundle :: env_bundle where
  "failed_local_bundle =
     [(''health'', Probe ok_result), (''capabilities'', Probe ok_result),
      (''main_api'', Probe refused_result)]"

definition slow_vercel_bundle :: env_bundle where
  "slow_vercel_bundle =
     [(''health'', Probe ok_result), (''capabilities'', Probe ok_result),
      (''main_api'', Probe ok_result), (''duration'', Scalar 12)]"

text \<open>Sample command lines.\<close>

definition vercel_only_args :: args where
  "vercel_only_args = \<lparr>arg_local = False, arg_vercel = Some example_url, arg_both = False\<rparr>"



definition refused_bundle :: env_bundle where
  "refused_bundle =
     [(''health'', Probe refused_result), (''capabilities'', Probe refused_result),
      (''main_api'', Probe refused_result)]"

text \<open>A run with \<open>--local\<close> alone.\<close>

definition local_args :: args where
  "local_args = \<lparr>arg_local = True, arg_vercel = None, arg_both = False\<rparr>"

text \<open>
  A line is plain when it is none of the three guidance lines the summary chooses between
  (the two local verdicts and the cold start annotation).  A computation emits \<open>P\<close> when, run
  in any world, it only appends lines to the terminal and each appended line satisfies \<open>P\<close>.
\<close>

definition plain :: "line \<Rightarrow> bool" where
  "plain l = (l \<noteq> msg_local_passed \<and> l \<noteq> msg_local_failed \<and> (\<forall>d. l \<noteq> msg_cold_start d))"

definition emits :: "(line \<Rightarrow> bool) \<Rightarrow> 'a io \<Rightarrow> bool" where
  "emits P m = (\<forall>w. \<exists>ls. stdout (snd (m w)) = stdout w @ ls \<and> list_all P ls)"

text \<open>
  A bundle is tidy when every entry other than \<open>duration\<close> is a probe result and the
  \<open>duration\<close> entry, if there is one, is a number: the summary can print such a bundle.
\<close>

definition tidy :: "env_bundle \<Rightarrow> bool" where
  "tidy b = ((\<forall>k v. (k, v) \<in> set b \<longrightarrow> k = ''duration'' \<or> (\<exists>r. v = Probe r)) \<and>
             (\<exists>d. get_duration b = Inr d))"
section \<open>Running the probes\<close>

lemmas io_defs = io_bind_def io_then_def io_ret_def io_raise_def io_lift_def try_except_def
  try_finally_def print_def say_def

lemma say_run: "say s w = (Inr (), w\<lparr>stdout := stdout w @ [[T s]]\<rparr>)"
  by (simp add: say_def print_def)

lemma fetch_run:
  "\<exists>ls. try_except
       (io_bind (requests_send rq) (\<lambda>response.
        io_then (raise_for_status response)
       (io_bind (response_json response) (\<lambda>result.
        io_then (say ok) (io_ret (success_result result))))))
       (\<lambda>e. Some (io_then (say (bad e)) (io_ret (error_result e)))) w =
     (Inr (classify (loads w) (fst (http w rq (clock w)))),
      w\<lparr>clock := clock w + snd (http w rq (clock w)), stdout := stdout w @ ls\<rparr>)"
proof -
  obtain r dt where h: "http w rq (clock w) = (r, dt)"
    by (cases "http w rq (clock w)")
  show ?thesis
  proof (cases r)
    case (Inl e)
    with h show ?thesis
      by (simp add: io_defs requests_send_def classify_def success_result_def error_result_def) (rule exI, rule refl)
  next
    case (Inr resp)
    note r = this
    show ?thesis
    proof (cases "400 \<le> status_code resp \<and> status_code resp < 600")
      case True
      with h r show ?thesis
        by (simp add: io_defs requests_send_def classify_def success_result_def error_result_def raise_for_status_def)
           (rule exI, rule refl)
    next
      case False
      show ?thesis
      proof (cases "loads w (body resp)")
        case (Inl m)
        with h r show ?thesis
          by (simp add: False io_defs requests_send_def classify_def success_result_def error_result_def raise_for_status_def
              response_json_def json_loads_def) (rule exI, rule refl)
      next
        case (Inr j)
        with h r show ?thesis
          by (simp add: False io_defs requests_send_def classify_def success_result_def error_result_def raise_for_status_def
              response_json_def json_loads_def) (rule exI, rule refl)
      qed
    qed
  qed
qed

lemma health_run:
  "\<exists>ls. test_health_endpoint base w =
     (Inr (classify (loads w) (fst (http w (health_request base) (clock w)))),
      w\<lparr>clock := clock w + snd (http w (health_request base) (clock w)),
        stdout := stdout w @ ls\<rparr>)"
proof -
  let ?w0 = "w\<lparr>stdout := stdout w @ [[T (glyph_hospital @ '' Testing health endpoint...'')]]\<rparr>"
  from fetch_run[of "health_request base" "glyph_ok @ '' Health check passed''"
      "\<lambda>e. glyph_fail @ '' Health check failed: '' @ str_exc e" ?w0]
  obtain ls where "try_except
       (io_bind (requests_send (health_request base)) (\<lambda>response.
        io_then (raise_for_status response)
       (io_bind (response_json response) (\<lambda>result.
        io_then (say (glyph_ok @ '' Health check passed'')) (io_ret (success_result result))))))
       (\<lambda>e. Some (io_then (say (glyph_fail @ '' Health check failed: '' @ str_exc e))
           (io_ret (error_result e)))) ?w0 =
     (Inr (classify (loads ?w0) (fst (http ?w0 (health_request base) (clock ?w0)))),
      ?w0\<lparr>clock := clock ?w0 + snd (http ?w0 (health_request base) (clock ?w0)),
          stdout := stdout ?w0 @ ls\<rparr>)"
    by blast
  then have "test_health_endpoint base w =
     (Inr (classify (loads w) (fst (http w (health_request base) (clock w)))),
      w\<lparr>clock := clock w + snd (http w (health_request base) (clock w)),
        stdout := stdout w @ ([[T (glyph_hospital @ '' Testing health endpoint...'')]] @ ls)\<rparr>)"
    by (simp add: test_health_endpoint_def requests_get_def health_request_def get_request_def
        io_then_def[of "say (glyph_hospital @ '' Testing health endpoint...'')"] io_bind_def[of "say (glyph_hospital @ '' Testing health endpoint...'')"] say_run)
  then show ?thesis by (rule exI)
qed


lemma capabilities_run:
  "\<exists>ls. test_capabilities_endpoint base w =
     (Inr (classify (loads w) (fst (http w (capabilities_request base) (clock w)))),
      w\<lparr>clock := clock w + snd (http w (capabilities_request base) (clock w)),
        stdout := stdout w @ ls\<rparr>)"
proof -
  let ?w0 = "w\<lparr>stdout := stdout w @ [[T (glyph_gear @ '' Testing capabilities endpoint...'')]]\<rparr>"
  from fetch_run[of "capabilities_request base" "glyph_ok @ '' Capabilities check passed''"
      "\<lambda>e. glyph_fail @ '' Capabilities check failed: '' @ str_exc e" ?w0]
  obtain ls where "try_except
       (io_bind (requests_send (capabilities_request base)) (\<lambda>response.
        io_then (raise_for_status response)
       (io_bind (response_json response) (\<lambda>result.
        io_then (say (glyph_ok @ '' Capabilities check passed'')) (io_ret (success_result result))))))
       (\<lambda>e. Some (io_then (say (glyph_fail @ '' Capabilities check failed: '' @ str_exc e))
           (io_ret (error_result e)))) ?w0 =
     (Inr (classify (loads ?w0) (fst (http ?w0 (capabilities_request base) (clock ?w0)))),
      ?w0\<lparr>clock := clock ?w0 + snd (http ?w0 (capabilities_request base) (clock ?w0)),
          stdout := stdout ?w0 @ ls\<rparr>)"
    by blast
  then have "test_capabilities_endpoint base w =
     (Inr (classify (loads w) (fst (http w (capabilities_request base) (clock w)))),
      w\<lparr>clock := clock w + snd (http w (capabilities_request base) (clock w)),
        stdout := stdout w @ ([[T (glyph_gear @ '' Testing capabilities endpoint...'')]] @ ls)\<rparr>)"
    by (simp add: test_capabilities_endpoint_def requests_get_def capabilities_request_def
        get_request_def
        io_then_def[of "say (glyph_gear @ '' Testing capabilities endpoint...'')"]
        io_bind_def[of "say (glyph_gear @ '' Testing capabilities endpoint...'')"] say_run)
  then show ?thesis by (rule exI)
qed

lemma create_Some:
  "find (\<lambda>p. files w p = None) (tmp_names w) = Some p \<Longrightarrow>
   create_test_questions_file w = (Inr p, w\<lparr>files := (files w)(p \<mapsto> File workload_content)\<rparr>)"
  by (simp add: create_test_questions_file_def)

lemma create_None:
  "find (\<lambda>p. files w p = None) (tmp_names w) = None \<Longrightarrow>
   create_test_questions_file w =
     (Inl (Exc FileExistsError ''No usable temporary file name found''), w)"
  by (simp add: create_test_questions_file_def)

lemma remove_quietly_run:
  "files w p = Some (File c) \<Longrightarrow>
   remove_quietly p w = (Inr (), if locked w p then w else w\<lparr>files := (files w)(p := None)\<rparr>)"
  by (simp add: remove_quietly_def try_except_def os_unlink_def io_ret_def)

lemma remove_quietly_Inr: "fst (remove_quietly p w) = Inr ()"
  by (simp add: remove_quietly_def try_except_def os_unlink_def io_ret_def
      split: option.splits node.splits)

lemma post_questions_run:
  assumes "files w p = Some (File workload_content)"
  shows "\<exists>ls. post_questions base p w =
     (Inr (classify (loads w) (fst (http w (main_request base) (clock w)))),
      w\<lparr>clock := clock w + snd (http w (main_request base) (clock w)),
        stdout := stdout w @ ls\<rparr>)"
proof -
  let ?w0 = "w\<lparr>stdout := stdout w @ [[T (glyph_outbox @ '' Uploading test data...'')]]\<rparr>"
  from fetch_run[of "main_request base" "glyph_ok @ '' Main API test passed''"
      "\<lambda>e. glyph_fail @ '' Main API test failed: '' @ str_exc e" ?w0]
  obtain ls where f: "try_except
       (io_bind (requests_send (main_request base)) (\<lambda>response.
        io_then (raise_for_status response)
       (io_bind (response_json response) (\<lambda>result.
        io_then (say (glyph_ok @ '' Main API test passed'')) (io_ret (success_result result))))))
       (\<lambda>e. Some (io_then (say (glyph_fail @ '' Main API test failed: '' @ str_exc e))
           (io_ret (error_result e)))) ?w0 =
     (Inr (classify (loads ?w0) (fst (http ?w0 (main_request base) (clock ?w0)))),
      ?w0\<lparr>clock := clock ?w0 + snd (http ?w0 (main_request base) (clock ?w0)),
          stdout := stdout ?w0 @ ls\<rparr>)"
    by blast
  have hoist: "try_except (io_bind (open_read p) (\<lambda>c. io_then (say s) (k c))) h w =
      try_except (k workload_content) h (w\<lparr>stdout := stdout w @ [[T s]]\<rparr>)" for s k h
    using assms by (simp add: try_except_def io_bind_def io_then_def open_read_def say_run)
  have "post_questions base p w =
     (Inr (classify (loads w) (fst (http w (main_request base) (clock w)))),
      w\<lparr>clock := clock w + snd (http w (main_request base) (clock w)),
        stdout := stdout w @ ([[T (glyph_outbox @ '' Uploading test data...'')]] @ ls)\<rparr>)"
    unfolding post_questions_def hoist requests_post_def
    using f by (simp add: main_request_def)
  then show ?thesis by (rule exI)
qed

lemma find_Some_holds: "find P xs = Some x \<Longrightarrow> P x"
  by (induction xs) (auto split: if_splits)

lemma try_finally_run:
  "m w = (r, w1) \<Longrightarrow> c w1 = (Inr u, w2) \<Longrightarrow> try_finally m c w = (r, w2)"
  by (simp add: try_finally_def)

lemma main_run:
  assumes f: "find (\<lambda>p. files w p = None) (tmp_names w) = Some p"
  obtains ls where "test_main_api_endpoint base w =
      (Inr (classify (loads w) (fst (http w (main_request base) (clock w)))),
       w\<lparr>files := (if locked w p then (files w)(p \<mapsto> File workload_content) else files w),
         clock := clock w + snd (http w (main_request base) (clock w)),
         stdout := stdout w @ ls\<rparr>)"
proof -
  define w0 where "w0 = w\<lparr>stdout := stdout w @ [[T (glyph_search @ '' Testing main API endpoint...'')]]\<rparr>"
  define w1 where "w1 = w0\<lparr>files := (files w0)(p \<mapsto> File workload_content)\<rparr>"
  have fresh: "files w p = None"
    using find_Some_holds[OF f] .
  have "find (\<lambda>p. files w0 p = None) (tmp_names w0) = Some p"
    using f by (simp add: w0_def)
  then have c: "create_test_questions_file w0 = (Inr p, w1)"
    unfolding w1_def by (rule create_Some)
  have "files w1 p = Some (File workload_content)" by (simp add: w1_def)
  from post_questions_run[OF this, of base] obtain ls where
    a: "post_questions base p w1
      = (Inr (classify (loads w1) (fst (http w1 (main_request base) (clock w1)))),
         w1\<lparr>clock := clock w1 + snd (http w1 (main_request base) (clock w1)),
           stdout := stdout w1 @ ls\<rparr>)"
    by blast
  define w2 where "w2 = w1\<lparr>clock := clock w1 + snd (http w1 (main_request base) (clock w1)),
           stdout := stdout w1 @ ls\<rparr>"
  have "files w2 p = Some (File workload_content)" by (simp add: w2_def w1_def)
  from remove_quietly_run[OF this]
  have u: "remove_quietly p w2 = (Inr (), if locked w2 p then w2 else w2\<lparr>files := (files w2)(p := None)\<rparr>)" .
  have t: "try_finally (post_questions base p) (remove_quietly p) w1 =
      (Inr (classify (loads w1) (fst (http w1 (main_request base) (clock w1)))),
       if locked w2 p then w2 else w2\<lparr>files := (files w2)(p := None)\<rparr>)"
    by (rule try_finally_run[where m = "post_questions base p" and c = "remove_quietly p",
          OF a[folded w2_def] u])
  have s: "test_main_api_endpoint base w =
      try_finally (post_questions base p) (remove_quietly p) w1"
    by (simp add: test_main_api_endpoint_def io_then_def io_bind_def say_run c[unfolded w0_def])
  have upd: "(files w)(p := None) = files w"
    using fresh by (auto simp: fun_eq_iff)
  have e1: "loads w1 = loads w" "http w1 = http w" "clock w1 = clock w" "locked w2 = locked w"
    by (simp_all add: w2_def w1_def w0_def)
  have e2: "(if locked w p then w2 else w2\<lparr>files := (files w2)(p := None)\<rparr>) =
       w\<lparr>files := (if locked w p then (files w)(p \<mapsto> File workload_content) else files w),
         clock := clock w + snd (http w (main_request base) (clock w)),
         stdout := stdout w @ ([[T (glyph_search @ '' Testing main API endpoint...'')]] @ ls)\<rparr>"
    using upd by (simp add: w2_def w1_def w0_def)
  have "test_main_api_endpoint base w =
      (Inr (classify (loads w) (fst (http w (main_request base) (clock w)))),
       w\<lparr>files := (if locked w p then (files w)(p \<mapsto> File workload_content) else files w),
         clock := clock w + snd (http w (main_request base) (clock w)),
         stdout := stdout w @ ([[T (glyph_search @ '' Testing main API endpoint...'')]] @ ls)\<rparr>)"
    unfolding s t e1 e2 ..
  then show ?thesis by (rule that)
qed

lemma main_raises:
  "find (\<lambda>p. files w p = None) (tmp_names w) = None \<Longrightarrow>
   fst (test_main_api_endpoint base w) =
     Inl (Exc FileExistsError ''No usable temporary file name found'')"
  by (simp add: test_main_api_endpoint_def io_then_def io_bind_def say_run create_None)

lemma classify_cases:
  "outcome = Inl e \<Longrightarrow>
     classify dec outcome = \<lparr>status = ''error'', data = None, error = Some (str_exc e)\<rparr>"
  "outcome = Inr r \<Longrightarrow> 400 \<le> status_code r \<and> status_code r < 600 \<Longrightarrow>
     classify dec outcome = \<lparr>status = ''error'', data = None, error = Some (error_text r)\<rparr>"
  "outcome = Inr r \<Longrightarrow> \<not> (400 \<le> status_code r \<and> status_code r < 600) \<Longrightarrow>
     dec (body r) = Inl m \<Longrightarrow>
     classify dec outcome = \<lparr>status = ''error'', data = None, error = Some m\<rparr>"
  "outcome = Inr r \<Longrightarrow> \<not> (400 \<le> status_code r \<and> status_code r < 600) \<Longrightarrow>
     dec (body r) = Inr j \<Longrightarrow>
     classify dec outcome = \<lparr>status = ''success'', data = Some j, error = None\<rparr>"
  by (auto simp: classify_def)

lemma health_fst:
  "fst (test_health_endpoint base w) =
     Inr (classify (loads w) (fst (http w (health_request base) (clock w))))"
  using health_run[of base w] by auto

lemma capabilities_fst:
  "fst (test_capabilities_endpoint base w) =
     Inr (classify (loads w) (fst (http w (capabilities_request base) (clock w))))"
  using capabilities_run[of base w] by auto

lemma main_fst:
  assumes "find (\<lambda>p. files w p = None) (tmp_names w) = Some p"
  shows "fst (test_main_api_endpoint base w) =
     Inr (classify (loads w) (fst (http w (main_request base) (clock w))))"
proof -
  from main_run[OF assms, of base] obtain ls where
    "test_main_api_endpoint base w =
      (Inr (classify (loads w) (fst (http w (main_request base) (clock w)))),
       w\<lparr>files := (if locked w p then (files w)(p \<mapsto> File workload_content) else files w),
         clock := clock w + snd (http w (main_request base) (clock w)),
         stdout := stdout w @ ls\<rparr>)" .
  then show ?thesis by simp
qed

lemma main_files:
  assumes "find (\<lambda>p. files w p = None) (tmp_names w) = Some p"
  shows "files (snd (test_main_api_endpoint base w)) =
     (if locked w p then (files w)(p \<mapsto> File workload_content) else files w)"
proof -
  from main_run[OF assms, of base] obtain ls where
    "test_main_api_endpoint base w =
      (Inr (classify (loads w) (fst (http w (main_request base) (clock w)))),
       w\<lparr>files := (if locked w p then (files w)(p \<mapsto> File workload_content) else files w),
         clock := clock w + snd (http w (main_request base) (clock w)),
         stdout := stdout w @ ls\<rparr>)" .
  then show ?thesis by simp
qed

lemmas demo_defs = demo_world_def demo_loads_def srv_ok_def srv_down_def srv_500_def srv_html_def
  srv_pair_def srv_300_def srv_null_def
  health_request_def capabilities_request_def main_request_def get_request_def

lemma fst_io_ret [simp]: "fst (io_ret x w) = Inr x" and snd_io_ret [simp]: "snd (io_ret x w) = w"
  by (simp_all add: io_ret_def)

lemma fst_say [simp]: "fst (say s w) = Inr ()"
  and snd_say [simp]: "snd (say s w) = w\<lparr>stdout := stdout w @ [[T s]]\<rparr>"
  by (simp_all add: say_run)

lemma fst_print [simp]: "fst (print l w) = Inr ()"
  and snd_print [simp]: "snd (print l w) = w\<lparr>stdout := stdout w @ [l]\<rparr>"
  by (simp_all add: print_def)

lemma io_bind_alt:
  "io_bind m f w = (case fst (m w) of Inl e \<Rightarrow> (Inl e, snd (m w)) | Inr x \<Rightarrow> f x (snd (m w)))"
  by (simp add: io_bind_def split: prod.splits sum.splits)

lemma io_then_alt:
  "io_then m k w = (case fst (m w) of Inl e \<Rightarrow> (Inl e, snd (m w)) | Inr x \<Rightarrow> k (snd (m w)))"
  by (simp add: io_then_def io_bind_alt)

lemma print_all_run: "print_all ls w = (Inr (), w\<lparr>stdout := stdout w @ ls\<rparr>)"
  by (induction ls arbitrary: w) (simp_all add: io_ret_def io_then_alt)

section \<open>Running the environment runners and the summary\<close>

lemma printer_ret: "printer (io_ret x)"
  unfolding printer_def io_ret_def by (intro exI[of _ "Inr x"] exI[of _ "[]"]) simp

lemma printer_raise: "printer (io_raise e)"
  unfolding printer_def io_raise_def by (intro exI[of _ "Inl e"] exI[of _ "[]"]) simp

lemma printer_lift: "printer (io_lift r)"
  unfolding printer_def io_lift_def by (intro exI[of _ r] exI[of _ "[]"]) simp

lemma printer_print: "printer (print l)"
  unfolding printer_def print_def by (intro exI[of _ "Inr ()"] exI[of _ "[l]"]) simp

lemma printer_say: "printer (say s)"
  unfolding say_def by (rule printer_print)

lemma printer_print_all: "printer (print_all ls)"
  unfolding printer_def by (intro exI[of _ "Inr ()"] exI[of _ ls]) (simp add: print_all_run)

lemma printer_bind:
  assumes "printer m" and "\<And>x. printer (f x)"
  shows "printer (io_bind m f)"
proof -
  from assms(1) obtain r ls where m: "\<And>w. m w = (r, w\<lparr>stdout := stdout w @ ls\<rparr>)"
    unfolding printer_def by blast
  show ?thesis
  proof (cases r)
    case (Inl e)
    have "\<forall>w. io_bind m f w = (Inl e, w\<lparr>stdout := stdout w @ ls\<rparr>)"
      by (simp add: io_bind_def m Inl)
    then show ?thesis unfolding printer_def by blast
  next
    case (Inr x)
    from assms(2)[of x] obtain r' ls' where
      f: "\<And>w. f x w = (r', w\<lparr>stdout := stdout w @ ls'\<rparr>)"
      unfolding printer_def by blast
    have "\<forall>w. io_bind m f w = (r', w\<lparr>stdout := stdout w @ (ls @ ls')\<rparr>)"
      by (simp add: io_bind_def m Inr f)
    then show ?thesis unfolding printer_def by blast
  qed
qed

lemma printer_then: "printer m \<Longrightarrow> printer k \<Longrightarrow> printer (io_then m k)"
  unfolding io_then_def by (rule printer_bind)

lemma printer_if: "printer a \<Longrightarrow> printer b \<Longrightarrow> printer (if c then a else b)"
  by simp

lemmas printer_intros = printer_ret printer_raise printer_lift printer_print printer_say
  printer_print_all printer_bind printer_then printer_if

lemma printer_local_health_report: "printer (local_health_report r)"
  unfolding local_health_report_def by (intro printer_intros)

lemma printer_local_capabilities_report: "printer (local_capabilities_report r)"
  unfolding local_capabilities_report_def by (intro printer_intros)

lemma printer_task_report: "printer (task_report r)"
  unfolding task_report_def by (intro printer_intros)

lemma printer_result_flag: "printer (result_flag j k l)"
  unfolding result_flag_def by (intro printer_intros)

lemma printer_local_main_report: "printer (local_main_report r)"
  unfolding local_main_report_def
  by (intro printer_intros printer_task_report printer_result_flag)

lemma printer_vercel_health_report: "printer (vercel_health_report r)"
  unfolding vercel_health_report_def by (intro printer_intros)

lemma printer_vercel_capabilities_report: "printer (vercel_capabilities_report r)"
  unfolding vercel_capabilities_report_def by (intro printer_intros)

lemma printer_vercel_main_report: "printer (vercel_main_report r d)"
  unfolding vercel_main_report_def by (intro printer_intros printer_task_report)

lemmas printer_reports = printer_local_health_report printer_local_capabilities_report
  printer_local_main_report printer_vercel_health_report printer_vercel_capabilities_report
  printer_vercel_main_report

lemma printer_fields:
  assumes "printer m"
  shows "clock (snd (m w)) = clock w" "http (snd (m w)) = http w" "loads (snd (m w)) = loads w"
    "files (snd (m w)) = files w" "tmp_names (snd (m w)) = tmp_names w"
    "locked (snd (m w)) = locked w" "stdin (snd (m w)) = stdin w"
proof -
  from assms obtain r ls where "m w = (r, w\<lparr>stdout := stdout w @ ls\<rparr>)"
    unfolding printer_def by blast
  then show "clock (snd (m w)) = clock w" "http (snd (m w)) = http w"
    "loads (snd (m w)) = loads w" "files (snd (m w)) = files w"
    "tmp_names (snd (m w)) = tmp_names w" "locked (snd (m w)) = locked w"
    "stdin (snd (m w)) = stdin w"
    by simp_all
qed

lemma printer_result: "printer m \<Longrightarrow> fst (m w) = fst (m w')"
  unfolding printer_def by (metis fst_conv)

lemma health_fields:
  "clock (snd (test_health_endpoint u w)) = clock w + snd (http w (health_request u) (clock w))"
  "http (snd (test_health_endpoint u w)) = http w"
  "loads (snd (test_health_endpoint u w)) = loads w"
  "files (snd (test_health_endpoint u w)) = files w"
  "tmp_names (snd (test_health_endpoint u w)) = tmp_names w"
  "locked (snd (test_health_endpoint u w)) = locked w"
  "stdin (snd (test_health_endpoint u w)) = stdin w"
  using health_run[of u w] by auto

lemma capabilities_fields:
  "clock (snd (test_capabilities_endpoint u w)) =
     clock w + snd (http w (capabilities_request u) (clock w))"
  "http (snd (test_capabilities_endpoint u w)) = http w"
  "loads (snd (test_capabilities_endpoint u w)) = loads w"
  "files (snd (test_capabilities_endpoint u w)) = files w"
  "tmp_names (snd (test_capabilities_endpoint u w)) = tmp_names w"
  "locked (snd (test_capabilities_endpoint u w)) = locked w"
  "stdin (snd (test_capabilities_endpoint u w)) = stdin w"
  using capabilities_run[of u w] by auto

lemma main_returns:
  assumes "fst (test_main_api_endpoint u w) = Inr res"
  shows "res = classify (loads w) (fst (http w (main_request u) (clock w)))"
    and "clock (snd (test_main_api_endpoint u w)) =
           clock w + snd (http w (main_request u) (clock w))"
    and "http (snd (test_main_api_endpoint u w)) = http w"
    and "loads (snd (test_main_api_endpoint u w)) = loads w"
proof -
  obtain p where f: "find (\<lambda>p. files w p = None) (tmp_names w) = Some p"
    using assms main_raises[of w u] by (cases "find (\<lambda>p. files w p = None) (tmp_names w)") auto
  from main_run[OF f, of u] obtain ls where
    r: "test_main_api_endpoint u w =
      (Inr (classify (loads w) (fst (http w (main_request u) (clock w)))),
       w\<lparr>files := (if locked w p then (files w)(p \<mapsto> File workload_content) else files w),
         clock := clock w + snd (http w (main_request u) (clock w)),
         stdout := stdout w @ ls\<rparr>)" .
  show "res = classify (loads w) (fst (http w (main_request u) (clock w)))"
    using assms r by simp
  show "clock (snd (test_main_api_endpoint u w)) =
           clock w + snd (http w (main_request u) (clock w))"
    "http (snd (test_main_api_endpoint u w)) = http w"
    "loads (snd (test_main_api_endpoint u w)) = loads w"
    using r by simp_all
qed

lemma fst_time_time [simp]: "fst (time_time w) = Inr (clock w)"
  and snd_time_time [simp]: "snd (time_time w) = w"
  by (simp_all add: time_time_def)

lemma io_bind_fst_Inr:
  "fst (io_bind m f w) = Inr y \<longleftrightarrow>
     (\<exists>x. fst (m w) = Inr x \<and> fst (f x (snd (m w))) = Inr y)"
  by (cases "m w") (auto simp: io_bind_def split: sum.splits)

lemma io_then_fst_Inr:
  "fst (io_then m k w) = Inr y \<longleftrightarrow>
     (\<exists>x. fst (m w) = Inr x \<and> fst (k (snd (m w))) = Inr y)"
  by (simp add: io_then_def io_bind_fst_Inr)

text \<open>What the remote runner returns, when it returns.\<close>

lemma vercel_bundle:
  assumes "fst (test_vercel_deployment u w) = Inr b"
  shows "b =
    [(''health'', Probe (classify (loads w) (fst (http w (health_request u) (clock w))))),
     (''capabilities'', Probe (classify (loads w)
        (fst (http w (capabilities_request u)
               (clock w + snd (http w (health_request u) (clock w))))))),
     (''main_api'', Probe (classify (loads w)
        (fst (http w (main_request u)
               (clock w + snd (http w (health_request u) (clock w)) +
                snd (http w (capabilities_request u)
                       (clock w + snd (http w (health_request u) (clock w))))))))),
     (''duration'', Scalar
        (snd (http w (main_request u)
               (clock w + snd (http w (health_request u) (clock w)) +
                snd (http w (capabilities_request u)
                       (clock w + snd (http w (health_request u) (clock w))))))))]"
proof -
  note pf = printer_fields[OF printer_vercel_health_report]
    printer_fields[OF printer_vercel_capabilities_report]
    printer_fields[OF printer_vercel_main_report]
  from assms show ?thesis
    unfolding test_vercel_deployment_def
    apply (simp only: io_then_fst_Inr io_bind_fst_Inr Let_def)
    apply (elim exE conjE)
    apply (frule main_returns(1))
    apply (frule main_returns(2))
    apply (frule main_returns(3))
    apply (drule main_returns(4))
    apply (simp add: health_fst capabilities_fst health_fields capabilities_fields pf)
    done
qed

lemma main_fst_case:
  "fst (test_main_api_endpoint u w) =
     (case find (\<lambda>p. files w p = None) (tmp_names w) of
        None \<Rightarrow> Inl (Exc FileExistsError ''No usable temporary file name found'')
      | Some p \<Rightarrow> Inr (classify (loads w) (fst (http w (main_request u) (clock w)))))"
  by (cases "find (\<lambda>p. files w p = None) (tmp_names w)")
     (simp_all add: main_raises main_fst)

text \<open>What the local runner returns, when it returns.\<close>

lemma local_bundle:
  assumes "fst (test_local_server w) = Inr b"
  shows "b =
    [(''health'', Probe (classify (loads w) (fst (http w (health_request local_url) (clock w))))),
     (''capabilities'', Probe (classify (loads w)
        (fst (http w (capabilities_request local_url)
               (clock w + snd (http w (health_request local_url) (clock w))))))),
     (''main_api'', Probe (classify (loads w)
        (fst (http w (main_request local_url)
               (clock w + snd (http w (health_request local_url) (clock w)) +
                snd (http w (capabilities_request local_url)
                       (clock w + snd (http w (health_request local_url) (clock w)))))))))]"
proof -
  note pf = printer_fields[OF printer_local_health_report]
    printer_fields[OF printer_local_capabilities_report]
    printer_fields[OF printer_local_main_report]
  from assms show ?thesis
    unfolding test_local_server_def
    apply (simp only: io_then_fst_Inr io_bind_fst_Inr Let_def)
    apply (elim exE conjE)
    apply (frule main_returns(1))
    apply (simp add: health_fst capabilities_fst health_fields capabilities_fields pf)
    done
qed

lemma report_of_error:
  "status r \<noteq> ''success'' \<Longrightarrow> fst (local_health_report r w) = Inr ()"
  "status r \<noteq> ''success'' \<Longrightarrow> fst (local_capabilities_report r w) = Inr ()"
  "status r \<noteq> ''success'' \<Longrightarrow> fst (local_main_report r w) = Inr ()"
  "status r \<noteq> ''success'' \<Longrightarrow> fst (vercel_health_report r w) = Inr ()"
  "status r \<noteq> ''success'' \<Longrightarrow> fst (vercel_capabilities_report r w) = Inr ()"
  "status r \<noteq> ''success'' \<Longrightarrow> fst (vercel_main_report r d w) = Inr ()"
  by (simp_all add: local_health_report_def local_capabilities_report_def local_main_report_def
      vercel_health_report_def vercel_capabilities_report_def vercel_main_report_def
      io_then_alt)

text \<open>No abort on failure: with all three probes failing the local runner still returns.\<close>

lemma local_server_survives_errors:
  assumes f: "find (\<lambda>p. files w p = None) (tmp_names w) = Some p"
    and h: "status (classify (loads w) (fst (http w (health_request local_url) (clock w))))
              \<noteq> ''success''"
    and c: "status (classify (loads w)
        (fst (http w (capabilities_request local_url)
               (clock w + snd (http w (health_request local_url) (clock w)))))) \<noteq> ''success''"
    and m: "status (classify (loads w)
        (fst (http w (main_request local_url)
               (clock w + snd (http w (health_request local_url) (clock w)) +
                snd (http w (capabilities_request local_url)
                       (clock w + snd (http w (health_request local_url) (clock w)))))))) \<noteq> ''success''"
  shows "\<exists>b. fst (test_local_server w) = Inr b"
proof -
  note pf = printer_fields[OF printer_local_health_report]
    printer_fields[OF printer_local_capabilities_report]
    printer_fields[OF printer_local_main_report]
  show ?thesis
    unfolding test_local_server_def
    using f h c m
    by (simp add: io_then_fst_Inr io_bind_fst_Inr health_fst capabilities_fst main_fst_case
        health_fields capabilities_fields pf report_of_error)
qed

lemmas runner_eval = test_local_server_def io_then_alt io_bind_alt health_fst capabilities_fst
  main_fst_case health_fields capabilities_fields local_health_report_def
  local_capabilities_report_def io_lift_def data_get_def classify_def success_result_def
  error_result_def demo_defs local_url_def


lemma probe_values_iff: "r \<in> set (probe_values b) \<longleftrightarrow> (\<exists>k. (k, Probe r) \<in> set b)"
proof (induction b)
  case Nil
  show ?case by simp
next
  case (Cons a b)
  obtain k v where a: "a = (k, v)" by (cases a)
  show ?case using Cons by (cases v) (auto simp: a)
qed

lemma all_success_iff:
  "all_success b \<longleftrightarrow> (\<forall>k r. (k, Probe r) \<in> set b \<longrightarrow> status r = ''success'')"
  unfolding all_success_def list_all_iff by (auto simp: probe_values_iff)

lemma local_guidance_run:
  "local_guidance results w =
     (Inr (), w\<lparr>stdout := stdout w @
        (if (case map_of results ''local'' of None \<Rightarrow> False | Some b \<Rightarrow> all_success b)
         then local_passed_lines else local_failed_lines)\<rparr>)"
  by (simp add: local_guidance_def print_all_run)

lemma vercel_guidance_snd:
  "snd (vercel_guidance results w) =
     w\<lparr>stdout := stdout w @
        (case map_of results ''vercel'' of
           None \<Rightarrow> []
         | Some b \<Rightarrow>
             if all_success b then
               msg_vercel_ok # (case get_duration b of
                                  Inl e \<Rightarrow> []
                                | Inr d \<Rightarrow> if d > 10 then [msg_cold_start d] else [])
             else vercel_failed_lines)\<rparr>"
  by (simp add: vercel_guidance_def io_then_alt io_bind_alt print_all_run io_lift_def
      split: option.splits sum.splits)

lemma get_duration_Inr:
  "get_duration b = Inr d \<longleftrightarrow>
     (map_of b ''duration'' = Some (Scalar d) \<or> map_of b ''duration'' = None \<and> d = 0)"
  by (auto simp: get_duration_def split: option.splits bundle_value.splits)

lemma cold_start_printed_iff:
  "(\<exists>d. msg_cold_start d \<in> set
      (case map_of results ''vercel'' of
           None \<Rightarrow> []
         | Some b \<Rightarrow>
             if all_success b then
               msg_vercel_ok # (case get_duration b of
                                  Inl e \<Rightarrow> []
                                | Inr d \<Rightarrow> if d > 10 then [msg_cold_start d] else [])
             else vercel_failed_lines)) \<longleftrightarrow>
   (\<exists>b d. map_of results ''vercel'' = Some b \<and>
      (\<forall>k r. (k, Probe r) \<in> set b \<longrightarrow> status r = ''success'') \<and>
      map_of b ''duration'' = Some (Scalar d) \<and> 10 < d)"
proof (cases "map_of results ''vercel''")
  case None
  then show ?thesis by simp
next
  case (Some b)
  show ?thesis
  proof (cases "all_success b")
    case False
    then show ?thesis
      using Some by (auto simp: all_success_iff vercel_failed_lines_def msg_cold_start_def)
  next
    case True
    show ?thesis
    proof (cases "get_duration b")
      case (Inl e)
      then have "\<And>d. map_of b ''duration'' \<noteq> Some (Scalar d)"
        by (auto simp: get_duration_def split: option.splits bundle_value.splits)
      then show ?thesis
        using Some True Inl by (auto simp: msg_cold_start_def msg_vercel_ok_def)
    next
      case (Inr d)
      have l: "(\<exists>d'. msg_cold_start d' \<in> set
        (case map_of results ''vercel'' of
           None \<Rightarrow> []
         | Some b \<Rightarrow>
             if all_success b then
               msg_vercel_ok # (case get_duration b of
                                  Inl e \<Rightarrow> []
                                | Inr d \<Rightarrow> if d > 10 then [msg_cold_start d] else [])
             else vercel_failed_lines)) \<longleftrightarrow> 10 < d"
        by (auto simp: Some True Inr msg_cold_start_def msg_vercel_ok_def)
      have "map_of b ''duration'' = Some (Scalar d) \<or> map_of b ''duration'' = None \<and> d = 0"
        using Inr by (simp add: get_duration_Inr)
      then have r: "(\<exists>b d'. map_of results ''vercel'' = Some b \<and>
          (\<forall>k r. (k, Probe r) \<in> set b \<longrightarrow> status r = ''success'') \<and>
          map_of b ''duration'' = Some (Scalar d') \<and> 10 < d') \<longleftrightarrow> 10 < d"
        using True by (auto simp: Some all_success_iff)
      show ?thesis unfolding l r ..
    qed
  qed
qed

lemma vercel_returns_clock:
  assumes "fst (test_vercel_deployment u w) = Inr b"
  shows "clock (snd (test_vercel_deployment u w)) =
     clock w + snd (http w (health_request u) (clock w)) +
       snd (http w (capabilities_request u) (clock w + snd (http w (health_request u) (clock w)))) +
       snd (http w (main_request u) (clock w + snd (http w (health_request u) (clock w)) + snd (http w (capabilities_request u) (clock w + snd (http w (health_request u) (clock w))))))"
proof -
  note pf = printer_fields[OF printer_vercel_health_report]
    printer_fields[OF printer_vercel_capabilities_report]
    printer_fields[OF printer_vercel_main_report]
  have b: "fst (m w) = Inr x \<Longrightarrow> snd (io_bind m f w) = snd (f x (snd (m w)))" for m f x
    and w :: world
    by (simp add: io_bind_alt)
  have t: "fst (m w) = Inr x \<Longrightarrow> snd (io_then m k w) = snd (k (snd (m w)))" for m k x
    and w :: world
    by (simp add: io_then_alt)
  from assms show ?thesis
    unfolding test_vercel_deployment_def
    apply (simp only: io_then_fst_Inr io_bind_fst_Inr Let_def)
    apply (elim exE conjE)
    apply (frule main_returns(2))
    apply (frule main_returns(3))
    apply (simp add: b t health_fst capabilities_fst health_fields capabilities_fields pf)
    done
qed

lemma printed_append: "snd (m w) = w\<lparr>stdout := stdout w @ ls\<rparr> \<Longrightarrow> printed m w = ls"
  by (simp add: printed_def)

lemma printed_local_guidance:
  "printed (local_guidance results) w =
     (if (case map_of results ''local'' of None \<Rightarrow> False | Some b \<Rightarrow> all_success b)
      then local_passed_lines else local_failed_lines)"
  by (rule printed_append) (simp add: local_guidance_run)

lemma printed_vercel_guidance:
  "printed (vercel_guidance results) w =
     (case map_of results ''vercel'' of
           None \<Rightarrow> []
         | Some b \<Rightarrow>
             if all_success b then
               msg_vercel_ok # (case get_duration b of
                                  Inl e \<Rightarrow> []
                                | Inr d \<Rightarrow> if d > 10 then [msg_cold_start d] else [])
             else vercel_failed_lines)"
  by (rule printed_append) (rule vercel_guidance_snd)

lemma local_lines_distinct:
  "msg_local_passed \<in> set local_passed_lines" "msg_local_failed \<in> set local_failed_lines"
  "msg_local_passed \<notin> set local_failed_lines" "msg_local_failed \<notin> set local_passed_lines"
  by (simp_all add: local_passed_lines_def local_failed_lines_def msg_local_passed_def
      msg_local_failed_def glyph_ok_def glyph_fail_def)


lemmas vercel_eval = test_vercel_deployment_def io_then_alt io_bind_alt health_fst
  capabilities_fst main_fst_case health_fields capabilities_fields
  printer_fields[OF printer_vercel_health_report]
  printer_fields[OF printer_vercel_capabilities_report]
  vercel_health_report_def vercel_capabilities_report_def vercel_main_report_def task_report_def
  io_lift_def data_get_def classify_def success_result_def error_result_def demo_defs

lemma vercel_run_sample:
  "fst (test_vercel_deployment example_url (demo_world srv_ok)) = Inr slow_vercel_bundle"
proof -
  obtain b where b: "fst (test_vercel_deployment example_url (demo_world srv_ok)) = Inr b"
    by (cases "fst (test_vercel_deployment example_url (demo_world srv_ok))")
       (simp_all add: vercel_eval Let_def)
  from vercel_bundle[OF b] have "b = slow_vercel_bundle"
    by (simp add: slow_vercel_bundle_def ok_result_def classify_def success_result_def demo_defs)
  with b show ?thesis by simp
qed

lemma snd_io_bind_Inr: "fst (m w) = Inr x \<Longrightarrow> snd (io_bind m f w) = snd (f x (snd (m w)))"
  by (simp add: io_bind_alt)

lemma snd_io_then_Inr: "fst (m w) = Inr x \<Longrightarrow> snd (io_then m k w) = snd (k (snd (m w)))"
  by (simp add: io_then_alt)

lemma map_of_dict_set:
  "map_of (dict_set k v kvs) k' = (if k' = k then Some v else map_of kvs k')"
  by (induction kvs) auto

lemma run_local_skipped:
  "\<not> arg_local a \<Longrightarrow> \<not> arg_both a \<Longrightarrow> run_local a rs w = (Inr rs, w)"
  by (simp add: run_local_def io_ret_def)

lemma run_both_skipped: "\<not> arg_both a \<Longrightarrow> run_both a rs w = (Inr rs, w)"
  by (simp add: run_both_def io_ret_def)

lemma run_vercel_local:
  "fst (run_vercel a rs w) = Inr rs' \<Longrightarrow> map_of rs' ''local'' = map_of rs ''local''"
  by (auto simp: run_vercel_def io_then_fst_Inr io_bind_fst_Inr map_of_dict_set
      split: option.splits if_splits)

lemma collect_without_local:
  assumes "\<not> arg_local a" "\<not> arg_both a" "fst (collect a w) = Inr results"
  shows "map_of results ''local'' = None"
proof -
  from assms have "fst (run_vercel a [] w) = Inr results"
    by (simp add: collect_def io_bind_alt run_local_skipped run_both_skipped split: sum.splits)
  from run_vercel_local[OF this] show ?thesis by simp
qed

lemma summary_stdout:
  assumes "fst (summary results w) = Inr ()"
  shows "\<exists>pre. stdout (snd (summary results w)) =
     pre @ printed (local_guidance results) w @ printed (vercel_guidance results) w"
proof -
  have l: "printed (local_guidance results) w' = printed (local_guidance results) w" for w'
    by (simp add: printed_local_guidance)
  have v: "printed (vercel_guidance results) w' = printed (vercel_guidance results) w" for w'
    by (simp add: printed_vercel_guidance)
  have sl: "snd (local_guidance results w') =
      w'\<lparr>stdout := stdout w' @ printed (local_guidance results) w\<rparr>" for w'
    by (simp add: local_guidance_run printed_local_guidance)
  have sv: "snd (vercel_guidance results w') =
      w'\<lparr>stdout := stdout w' @ printed (vercel_guidance results) w\<rparr>" for w'
    by (simp add: vercel_guidance_snd printed_vercel_guidance)
  from assms show ?thesis
    unfolding summary_def
    apply (simp only: io_then_fst_Inr)
    apply (elim exE conjE)
    apply (simp add: snd_io_then_Inr sl sv)
    done
qed


lemma vercel_run_sample_any:
  "fst (test_vercel_deployment example_url ((demo_world srv_ok)\<lparr>stdout := s\<rparr>)) =
     Inr slow_vercel_bundle"
proof -
  obtain b where
    b: "fst (test_vercel_deployment example_url ((demo_world srv_ok)\<lparr>stdout := s\<rparr>)) = Inr b"
    by (cases "fst (test_vercel_deployment example_url ((demo_world srv_ok)\<lparr>stdout := s\<rparr>))")
       (simp_all add: vercel_eval Let_def)
  from vercel_bundle[OF b] have "b = slow_vercel_bundle"
    by (simp add: slow_vercel_bundle_def ok_result_def classify_def success_result_def demo_defs)
  with b show ?thesis by simp
qed

lemma collect_sample_any:
  "fst (collect vercel_only_args ((demo_world srv_ok)\<lparr>stdout := s\<rparr>)) =
     Inr [(''vercel'', slow_vercel_bundle)]"
proof -
  have e: "example_url \<noteq> []" by (simp add: example_url_def)
  have w: "snd (say l ((demo_world srv_ok)\<lparr>stdout := s\<rparr>)) =
      (demo_world srv_ok)\<lparr>stdout := s @ [[T l]]\<rparr>" for l
    by (simp add: demo_world_def)
  show ?thesis
    by (simp add: collect_def vercel_only_args_def run_local_def run_both_def run_vercel_def
        io_bind_alt io_then_alt e w vercel_run_sample_any)
qed

lemma collect_sample:
  "fst (collect vercel_only_args (demo_world srv_ok)) = Inr [(''vercel'', slow_vercel_bundle)]"
  using collect_sample_any[of "[]"] by (simp add: demo_world_def)

lemma summary_sample:
  "fst (summary [(''vercel'', slow_vercel_bundle)] w) = Inr ()"
  by (simp add: summary_def io_then_alt io_bind_alt slow_vercel_bundle_def ok_result_def
      local_guidance_run vercel_guidance_def all_success_def get_duration_def io_lift_def)


lemma run_vercel_Inr:
  assumes "arg_vercel a = Some u" "u \<noteq> []" "fst (run_vercel a rs w) = Inr rs'"
  shows "\<exists>b. fst (test_vercel_deployment u
            (snd (say (nl @ glyph_rocket @ '' Starting Vercel deployment tests...'') w))) = Inr b \<and>
          rs' = dict_set ''vercel'' b rs"
  using assms by (auto simp: run_vercel_def io_then_fst_Inr io_bind_fst_Inr)

lemma run_both_Inr:
  assumes "arg_both a" "fst (run_both a rs w) = Inr rs'"
  shows "\<exists>b. fst (test_vercel_deployment example_url
            (snd (say ''(This will fail unless you update the URL)''
              (snd (say (''Testing example URL: '' @ example_url)
                (snd (say (nl @ glyph_rocket @ '' Starting example Vercel deployment tests...'')
                   w))))))) = Inr b \<and>
          rs' = dict_set ''vercel'' b rs"
  using assms by (auto simp: run_both_def io_then_fst_Inr io_bind_fst_Inr)





section \<open>What the runners and the summary table print\<close>

text \<open>
  Every line printed before the guidance block (the banners, the probe reports of both
  runners and the summary table) is plain, so a guidance line on the terminal after a run
  of \<open>summary\<close> or \<open>main\<close> was put there by the guidance block.
\<close>

lemma emitsI:
  assumes "\<And>w. \<exists>ls. stdout (snd (m w)) = stdout w @ ls \<and> list_all P ls"
  shows "emits P m"
  using assms unfolding emits_def by blast

lemma emitsD:
  assumes "emits P m"
  obtains ls where "stdout (snd (m w)) = stdout w @ ls" "list_all P ls"
  using assms unfolding emits_def by blast

lemma emits_silent:
  assumes "\<And>w. stdout (snd (m w)) = stdout w"
  shows "emits P m"
  by (rule emitsI) (simp add: assms)

lemma emits_ret: "emits P (io_ret x)"
  by (rule emits_silent) simp

lemma emits_raise: "emits P (io_raise e)"
  by (rule emits_silent) (simp add: io_raise_def)

lemma emits_lift: "emits P (io_lift r)"
  by (rule emits_silent) (simp add: io_lift_def)

lemma emits_print: "P l \<Longrightarrow> emits P (print l)"
  by (rule emitsI) simp

lemma emits_say: "P [T s] \<Longrightarrow> emits P (say s)"
  unfolding say_def by (rule emits_print)

lemma emits_print_all: "list_all P ls \<Longrightarrow> emits P (print_all ls)"
  by (rule emitsI) (simp add: print_all_run)

lemma emits_bind:
  assumes "emits P m" and "\<And>x. emits P (f x)"
  shows "emits P (io_bind m f)"
proof (rule emitsI)
  fix w
  from assms(1) obtain ls where m: "stdout (snd (m w)) = stdout w @ ls" "list_all P ls"
    by (rule emitsD)
  show "\<exists>ls. stdout (snd (io_bind m f w)) = stdout w @ ls \<and> list_all P ls"
  proof (cases "fst (m w)")
    case (Inl e)
    then show ?thesis using m by (simp add: io_bind_alt)
  next
    case (Inr x)
    from assms(2)[of x] obtain ls' where
      f: "stdout (snd (f x (snd (m w)))) = stdout (snd (m w)) @ ls'" "list_all P ls'"
      by (rule emitsD)
    have "stdout (snd (io_bind m f w)) = stdout w @ (ls @ ls')"
      using Inr m f by (simp add: io_bind_alt)
    moreover have "list_all P (ls @ ls')"
      using m f by simp
    ultimately show ?thesis by blast
  qed
qed

lemma emits_then: "emits P m \<Longrightarrow> emits P k \<Longrightarrow> emits P (io_then m k)"
  unfolding io_then_def by (rule emits_bind)

lemma emits_if: "emits P a \<Longrightarrow> emits P b \<Longrightarrow> emits P (if c then a else b)"
  by simp

lemma emits_try_except:
  assumes "emits P m" and "\<And>e k. h e = Some k \<Longrightarrow> emits P k"
  shows "emits P (try_except m h)"
proof (rule emitsI)
  fix w
  from assms(1) obtain ls where m: "stdout (snd (m w)) = stdout w @ ls" "list_all P ls"
    by (rule emitsD)
  obtain r w1 where mw: "m w = (r, w1)" by (cases "m w")
  show "\<exists>ls. stdout (snd (try_except m h w)) = stdout w @ ls \<and> list_all P ls"
  proof (cases r)
    case (Inr x)
    then show ?thesis using m mw by (simp add: try_except_def)
  next
    case (Inl e)
    show ?thesis
    proof (cases "h e")
      case None
      then show ?thesis using m mw Inl by (simp add: try_except_def)
    next
      case (Some k)
      from assms(2)[OF Some] obtain ls' where
        k: "stdout (snd (k w1)) = stdout w1 @ ls'" "list_all P ls'"
        by (rule emitsD)
      have "stdout (snd (try_except m h w)) = stdout w @ (ls @ ls')"
        using m mw Inl Some k by (simp add: try_except_def)
      moreover have "list_all P (ls @ ls')" using m k by simp
      ultimately show ?thesis by blast
    qed
  qed
qed

lemma emits_try_except_all:
  assumes "emits P m" and "\<And>e. emits P (g e)"
  shows "emits P (try_except m (\<lambda>e. Some (g e)))"
  using assms by (intro emits_try_except) auto

lemma emits_try_finally:
  assumes "emits P m" and "emits P c"
  shows "emits P (try_finally m c)"
proof (rule emitsI)
  fix w
  from assms(1) obtain ls where m: "stdout (snd (m w)) = stdout w @ ls" "list_all P ls"
    by (rule emitsD)
  obtain r w1 where mw: "m w = (r, w1)" by (cases "m w")
  from assms(2) obtain ls' where
    c: "stdout (snd (c w1)) = stdout w1 @ ls'" "list_all P ls'"
    by (rule emitsD)
  obtain r' w2 where cw: "c w1 = (r', w2)" by (cases "c w1")
  have "stdout (snd (try_finally m c w)) = stdout w @ (ls @ ls')"
    using m mw c cw by (cases r') (simp_all add: try_finally_def)
  moreover have "list_all P (ls @ ls')" using m c by simp
  ultimately show "\<exists>ls. stdout (snd (try_finally m c w)) = stdout w @ ls \<and> list_all P ls"
    by blast
qed

lemma emits_requests_send: "emits P (requests_send rq)"
  by (rule emits_silent) (simp add: requests_send_def split: prod.splits)

lemma emits_requests_get: "emits P (requests_get u t)"
  unfolding requests_get_def by (rule emits_requests_send)

lemma emits_requests_post: "emits P (requests_post u f d t)"
  unfolding requests_post_def by (rule emits_requests_send)

lemma emits_raise_for_status: "emits P (raise_for_status r)"
  unfolding raise_for_status_def by (intro emits_if emits_raise emits_ret)

lemma emits_response_json: "emits P (response_json r)"
  by (rule emits_silent) (simp add: response_json_def json_loads_def split: sum.splits)

lemma emits_create: "emits P create_test_questions_file"
  by (rule emits_silent) (simp add: create_test_questions_file_def split: option.splits)

lemma emits_open_read: "emits P (open_read p)"
  by (rule emits_silent) (simp add: open_read_def split: option.splits node.splits)

lemma emits_os_unlink: "emits P (os_unlink p)"
  by (rule emits_silent) (simp add: os_unlink_def split: option.splits node.splits)

lemma emits_time_time: "emits P time_time"
  by (rule emits_silent) simp

lemma emits_input: "P [T prompt] \<Longrightarrow> emits P (input prompt)"
  by (rule emitsI) (simp add: input_def split: list.splits)

lemmas emits_intros = emits_ret emits_raise emits_lift emits_print emits_say emits_print_all
  emits_bind emits_then emits_if emits_try_except_all emits_try_finally emits_requests_get
  emits_requests_post emits_raise_for_status emits_response_json emits_create emits_open_read
  emits_os_unlink emits_time_time emits_input

lemmas plain_defs = plain_def msg_local_passed_def msg_local_failed_def msg_cold_start_def
  glyph_ok_def glyph_fail_def glyph_hourglass_def glyph_hospital_def glyph_gear_def
  glyph_outbox_def glyph_tube_def glyph_rocket_def glyph_house_def glyph_search_def
  glyph_clipboard_def nl_def

lemma emits_health: "emits plain (test_health_endpoint u)"
  unfolding test_health_endpoint_def
  by (intro emits_intros; simp add: plain_defs)

lemma emits_capabilities: "emits plain (test_capabilities_endpoint u)"
  unfolding test_capabilities_endpoint_def
  by (intro emits_intros; simp add: plain_defs)

lemma emits_main_probe: "emits plain (test_main_api_endpoint u)"
  unfolding test_main_api_endpoint_def post_questions_def remove_quietly_def
  by (intro emits_intros; simp add: plain_defs)

lemma rule50_unfold: "rule50 = CHR ''='' # replicate 49 (CHR ''='')"
  by (simp add: rule50_def numeral_eq_Suc)

lemma emits_reports:
  "emits plain (local_health_report r)"
  "emits plain (local_capabilities_report r)"
  "emits plain (task_report r)"
  "emits plain (result_flag j k ''  Analysis results available: '')"
  "emits plain (result_flag j k ''  Visualization generated: '')"
  "emits plain (vercel_health_report r)"
  "emits plain (vercel_capabilities_report r)"
  unfolding local_health_report_def local_capabilities_report_def task_report_def
    result_flag_def vercel_health_report_def vercel_capabilities_report_def
  by (intro emits_intros; simp add: plain_defs list_all_iff)+

lemma emits_local_main_report: "emits plain (local_main_report r)"
  unfolding local_main_report_def
  by (intro emits_intros emits_reports; simp add: plain_defs)

lemma emits_vercel_main_report: "emits plain (vercel_main_report r d)"
  unfolding vercel_main_report_def
  by (intro emits_intros emits_reports; simp add: plain_defs)

lemma emits_local_server: "emits plain test_local_server"
  unfolding test_local_server_def
  by (intro emits_intros emits_reports emits_local_main_report emits_health emits_capabilities
        emits_main_probe; simp add: plain_defs rule50_unfold local_url_def)

lemma emits_vercel_deployment: "emits plain (test_vercel_deployment u)"
  unfolding test_vercel_deployment_def Let_def
  by (intro emits_intros emits_reports emits_vercel_main_report emits_health emits_capabilities
        emits_main_probe; simp add: plain_defs rule50_unfold)

lemma emits_collect: "emits plain (collect a)"
proof -
  have l: "emits plain (run_local a rs)" for rs
    unfolding run_local_def
    by (intro emits_intros emits_local_server; simp add: plain_defs)
  have v: "emits plain (run_vercel a rs)" for rs
    unfolding run_vercel_def
    by (cases "arg_vercel a")
       (auto intro!: emits_intros emits_vercel_deployment simp: plain_defs)
  have b: "emits plain (run_both a rs)" for rs
    unfolding run_both_def
    by (intro emits_intros emits_vercel_deployment; simp add: plain_defs example_url_def)
  show ?thesis
    unfolding collect_def by (intro emits_bind l v b)
qed

lemma emits_summary_tests: "emits plain (summary_tests b)"
proof (induction b)
  case Nil
  show ?case by (simp add: emits_ret)
next
  case (Cons a b)
  obtain k v where a: "a = (k, v)" by (cases a)
  show ?case
    unfolding a summary_tests.simps
    by (intro emits_intros Cons; simp add: plain_defs)
qed

lemma emits_summary_envs: "emits plain (summary_envs rs)"
proof (induction rs)
  case Nil
  show ?case by (simp add: emits_ret)
next
  case (Cons a rs)
  obtain k v where a: "a = (k, v)" by (cases a)
  show ?case
    unfolding a summary_envs.simps
    by (intro emits_intros emits_summary_tests Cons; simp add: plain_defs)
qed

lemma printed_grows: "stdout (snd (m w)) = stdout w @ ls \<Longrightarrow> printed m w = ls"
  by (simp add: printed_def)

lemma plain_not_guidance:
  "list_all plain pre \<Longrightarrow> msg_local_passed \<notin> set pre"
  "list_all plain pre \<Longrightarrow> msg_local_failed \<notin> set pre"
  "list_all plain pre \<Longrightarrow> msg_cold_start d \<notin> set pre"
  by (auto simp: list_all_iff plain_def)

lemma summary_lines:
  assumes "fst (summary results w) = Inr ()"
  obtains pre where
    "stdout (snd (summary results w)) =
       stdout w @ pre @ printed (local_guidance results) w @ printed (vercel_guidance results) w"
    "list_all plain pre"
proof -
  let ?w3 = "w\<lparr>stdout := stdout w @ [[T (nl @ rule50)], [T ''TEST SUMMARY''], [T rule50]]\<rparr>"
  have l: "printed (local_guidance results) w' = printed (local_guidance results) w" for w'
    by (simp add: printed_local_guidance)
  have v: "printed (vercel_guidance results) w' = printed (vercel_guidance results) w" for w'
    by (simp add: printed_vercel_guidance)
  have sl: "snd (local_guidance results w') =
      w'\<lparr>stdout := stdout w' @ printed (local_guidance results) w\<rparr>" for w'
    by (simp add: local_guidance_run printed_local_guidance)
  have sv: "snd (vercel_guidance results w') =
      w'\<lparr>stdout := stdout w' @ printed (vercel_guidance results) w\<rparr>" for w'
    by (simp add: vercel_guidance_snd printed_vercel_guidance)
  from emits_summary_envs[of results] obtain ls where
    e: "stdout (snd (summary_envs results ?w3)) = stdout ?w3 @ ls" and p: "list_all plain ls"
    by (rule emitsD)
  let ?pre = "[[T (nl @ rule50)], [T ''TEST SUMMARY''], [T rule50]] @ ls @
      [[T (nl @ glyph_clipboard @ '' Next steps:'')]]"
  have "stdout (snd (summary results w)) =
       stdout w @ ?pre @ printed (local_guidance results) w @ printed (vercel_guidance results) w"
    using assms unfolding summary_def
    apply (simp only: io_then_fst_Inr)
    apply (elim exE conjE)
    apply (simp add: snd_io_then_Inr sl sv e[simplified])
    done
  moreover have "list_all plain ?pre"
    using p by (simp add: plain_defs rule50_unfold)
  ultimately show ?thesis by (rule that)
qed

lemma main_lines:
  assumes "fst (main a w) = Inr ()"
  obtains rs pre where
    "fst (collect a (snd (say rule50
        (snd (say (glyph_tube @ '' API Testing Suite for TDS Project2'') w))))) = Inr rs"
    "stdout (snd (main a w)) =
       stdout w @ pre @ printed (local_guidance rs) w @ printed (vercel_guidance rs) w"
    "list_all plain pre"
proof -
  let ?w1 = "snd (say rule50 (snd (say (glyph_tube @ '' API Testing Suite for TDS Project2'') w)))"
  from assms obtain rs where c: "fst (collect a ?w1) = Inr rs"
    and s: "fst (summary rs (snd (collect a ?w1))) = Inr ()"
    unfolding main_def by (auto simp: io_then_fst_Inr io_bind_fst_Inr)
  have e: "snd (main a w) = snd (summary rs (snd (collect a ?w1)))"
    unfolding main_def using c by (simp add: snd_io_then_Inr snd_io_bind_Inr)
  from emits_collect[of a] obtain lc where
    lc: "stdout (snd (collect a ?w1)) = stdout ?w1 @ lc" and pc: "list_all plain lc"
    by (rule emitsD)
  from summary_lines[OF s] obtain pre where
    sp: "stdout (snd (summary rs (snd (collect a ?w1)))) =
       stdout (snd (collect a ?w1)) @ pre @
       printed (local_guidance rs) (snd (collect a ?w1)) @
       printed (vercel_guidance rs) (snd (collect a ?w1))"
    and pp: "list_all plain pre"
    by blast
  let ?pre = "[[T (glyph_tube @ '' API Testing Suite for TDS Project2'')], [T rule50]] @ lc @ pre"
  have "stdout (snd (main a w)) =
       stdout w @ ?pre @ printed (local_guidance rs) w @ printed (vercel_guidance rs) w"
    unfolding e sp lc
    by (simp add: printed_local_guidance printed_vercel_guidance)
  moreover have "list_all plain ?pre"
    using pc pp by (simp add: plain_defs rule50_unfold)
  ultimately show ?thesis using c by (intro that[of rs ?pre])
qed

lemma vercel_lines_not_local:
  "msg_local_passed \<notin> set (printed (vercel_guidance rs) w)"
  "msg_local_failed \<notin> set (printed (vercel_guidance rs) w)"
  unfolding printed_vercel_guidance
  by (auto simp: vercel_failed_lines_def msg_vercel_ok_def msg_cold_start_def
      msg_local_passed_def msg_local_failed_def glyph_ok_def glyph_fail_def
      split: option.splits sum.splits)

lemma local_lines_not_cold: "msg_cold_start d \<notin> set (printed (local_guidance rs) w)"
  unfolding printed_local_guidance
  by (simp add: local_passed_lines_def local_failed_lines_def msg_cold_start_def
      msg_local_passed_def msg_local_failed_def)

lemma local_lines_iff:
  "msg_local_passed \<in> set (printed (local_guidance rs) w) \<longleftrightarrow>
     (\<exists>b. map_of rs ''local'' = Some b \<and>
        (\<forall>k r. (k, Probe r) \<in> set b \<longrightarrow> status r = ''success''))"
  "msg_local_failed \<in> set (printed (local_guidance rs) w) \<longleftrightarrow>
     \<not> (\<exists>b. map_of rs ''local'' = Some b \<and>
        (\<forall>k r. (k, Probe r) \<in> set b \<longrightarrow> status r = ''success''))"
proof -
  have c: "(case map_of rs ''local'' of None \<Rightarrow> False | Some b \<Rightarrow> all_success b) \<longleftrightarrow>
      (\<exists>b. map_of rs ''local'' = Some b \<and>
           (\<forall>k r. (k, Probe r) \<in> set b \<longrightarrow> status r = ''success''))"
    by (simp add: all_success_iff split: option.splits)
  show "msg_local_passed \<in> set (printed (local_guidance rs) w) \<longleftrightarrow>
     (\<exists>b. map_of rs ''local'' = Some b \<and>
        (\<forall>k r. (k, Probe r) \<in> set b \<longrightarrow> status r = ''success''))"
    unfolding printed_local_guidance c by (simp add: local_lines_distinct)
  show "msg_local_failed \<in> set (printed (local_guidance rs) w) \<longleftrightarrow>
     \<not> (\<exists>b. map_of rs ''local'' = Some b \<and>
        (\<forall>k r. (k, Probe r) \<in> set b \<longrightarrow> status r = ''success''))"
    unfolding printed_local_guidance c by (simp add: local_lines_distinct)
qed

lemma summary_local_iff:
  assumes "fst (summary rs w) = Inr ()"
  shows "msg_local_passed \<in> set (printed (summary rs) w) \<longleftrightarrow>
      msg_local_passed \<in> set (printed (local_guidance rs) w)"
    and "msg_local_failed \<in> set (printed (summary rs) w) \<longleftrightarrow>
      msg_local_failed \<in> set (printed (local_guidance rs) w)"
    and "msg_cold_start d \<in> set (printed (summary rs) w) \<longleftrightarrow>
      msg_cold_start d \<in> set (printed (vercel_guidance rs) w)"
proof -
  from summary_lines[OF assms] obtain pre where
    s: "stdout (snd (summary rs w)) =
       stdout w @ pre @ printed (local_guidance rs) w @ printed (vercel_guidance rs) w"
    and p: "list_all plain pre"
    by blast
  have e: "printed (summary rs) w =
      pre @ printed (local_guidance rs) w @ printed (vercel_guidance rs) w"
    by (rule printed_grows) (rule s)
  show "msg_local_passed \<in> set (printed (summary rs) w) \<longleftrightarrow>
      msg_local_passed \<in> set (printed (local_guidance rs) w)"
    "msg_local_failed \<in> set (printed (summary rs) w) \<longleftrightarrow>
      msg_local_failed \<in> set (printed (local_guidance rs) w)"
    "msg_cold_start d \<in> set (printed (summary rs) w) \<longleftrightarrow>
      msg_cold_start d \<in> set (printed (vercel_guidance rs) w)"
    unfolding e
    using plain_not_guidance[OF p] vercel_lines_not_local[of rs w] local_lines_not_cold[of d rs w]
    by auto
qed

lemma main_guidance_iff:
  assumes "fst (main a w) = Inr ()"
  obtains rs where
    "fst (collect a (snd (say rule50
        (snd (say (glyph_tube @ '' API Testing Suite for TDS Project2'') w))))) = Inr rs"
    "msg_local_passed \<in> set (printed (main a) w) \<longleftrightarrow>
      msg_local_passed \<in> set (printed (local_guidance rs) w)"
    "msg_local_failed \<in> set (printed (main a) w) \<longleftrightarrow>
      msg_local_failed \<in> set (printed (local_guidance rs) w)"
    "\<And>d. msg_cold_start d \<in> set (printed (main a) w) \<longleftrightarrow>
      msg_cold_start d \<in> set (printed (vercel_guidance rs) w)"
proof -
  from main_lines[OF assms] obtain rs pre where
    c: "fst (collect a (snd (say rule50
        (snd (say (glyph_tube @ '' API Testing Suite for TDS Project2'') w))))) = Inr rs"
    and s: "stdout (snd (main a w)) =
       stdout w @ pre @ printed (local_guidance rs) w @ printed (vercel_guidance rs) w"
    and p: "list_all plain pre"
    by blast
  have e: "printed (main a) w =
      pre @ printed (local_guidance rs) w @ printed (vercel_guidance rs) w"
    by (rule printed_grows) (rule s)
  show ?thesis
  proof (rule that[OF c])
    show "msg_local_passed \<in> set (printed (main a) w) \<longleftrightarrow>
      msg_local_passed \<in> set (printed (local_guidance rs) w)"
      "msg_local_failed \<in> set (printed (main a) w) \<longleftrightarrow>
      msg_local_failed \<in> set (printed (local_guidance rs) w)"
      unfolding e
      using plain_not_guidance[OF p] vercel_lines_not_local[of rs w]
      by auto
    show "msg_cold_start d \<in> set (printed (main a) w) \<longleftrightarrow>
      msg_cold_start d \<in> set (printed (vercel_guidance rs) w)" for d
      unfolding e
      using plain_not_guidance[OF p] local_lines_not_cold[of d rs w]
      by auto
  qed
qed

lemma cold_start_line_iff:
  "msg_cold_start d \<in> set (printed (vercel_guidance rs) w) \<longleftrightarrow>
     (\<exists>b. map_of rs ''vercel'' = Some b \<and>
        (\<forall>k r. (k, Probe r) \<in> set b \<longrightarrow> status r = ''success'') \<and>
        map_of b ''duration'' = Some (Scalar d) \<and> 10 < d)"
proof (cases "map_of rs ''vercel''")
  case None
  then show ?thesis by (simp add: printed_vercel_guidance)
next
  case (Some b)
  show ?thesis
  proof (cases "all_success b")
    case False
    then show ?thesis
      using Some
      by (auto simp: printed_vercel_guidance all_success_iff vercel_failed_lines_def
          msg_cold_start_def)
  next
    case True
    show ?thesis
    proof (cases "get_duration b")
      case (Inl e)
      then have "\<And>d. map_of b ''duration'' \<noteq> Some (Scalar d)"
        by (auto simp: get_duration_def split: option.splits bundle_value.splits)
      then show ?thesis
        using Some True Inl
        by (auto simp: printed_vercel_guidance msg_cold_start_def msg_vercel_ok_def)
    next
      case (Inr d')
      have l: "msg_cold_start d \<in> set (printed (vercel_guidance rs) w) \<longleftrightarrow> 10 < d' \<and> d = d'"
        by (auto simp: printed_vercel_guidance Some True Inr msg_cold_start_def msg_vercel_ok_def)
      have "map_of b ''duration'' = Some (Scalar d') \<or> map_of b ''duration'' = None \<and> d' = 0"
        using Inr by (simp add: get_duration_Inr)
      then have r: "(\<exists>b. map_of rs ''vercel'' = Some b \<and>
          (\<forall>k r. (k, Probe r) \<in> set b \<longrightarrow> status r = ''success'') \<and>
          map_of b ''duration'' = Some (Scalar d) \<and> 10 < d) \<longleftrightarrow> 10 < d' \<and> d = d'"
        using True by (auto simp: Some all_success_iff)
      show ?thesis unfolding l r ..
    qed
  qed
qed

text \<open>The bundles the runners return are tidy, so \<open>main\<close> completes once they have returned.\<close>

lemma tidy_local:
  assumes "fst (test_local_server w) = Inr b"
  shows "tidy b"
  by (subst local_bundle[OF assms]) (simp add: tidy_def get_duration_def)

lemma tidy_vercel:
  assumes "fst (test_vercel_deployment u w) = Inr b"
  shows "tidy b"
  by (subst vercel_bundle[OF assms]) (auto simp: tidy_def get_duration_def)

lemma set_dict_set: "set (dict_set k v kvs) \<subseteq> insert (k, v) (set kvs)"
  by (induction kvs) (auto split: if_splits)

lemma tidy_dict_set:
  assumes "\<forall>e b. (e, b) \<in> set rs \<longrightarrow> tidy b" "tidy v"
  shows "\<forall>e b. (e, b) \<in> set (dict_set k v rs) \<longrightarrow> tidy b"
  using assms set_dict_set[of k v rs] by blast

lemma run_local_tidy:
  assumes "\<forall>e b. (e, b) \<in> set rs \<longrightarrow> tidy b" "fst (run_local a rs w) = Inr rs'"
  shows "\<forall>e b. (e, b) \<in> set rs' \<longrightarrow> tidy b"
proof (cases "arg_local a \<or> arg_both a")
  case False
  then show ?thesis using assms by (simp add: run_local_def)
next
  case True
  with assms(2) obtain w' b where "fst (test_local_server w') = Inr b"
    and r: "rs' = dict_set ''local'' b rs"
    by (auto simp: run_local_def io_then_fst_Inr io_bind_fst_Inr)
  then have "tidy b" by (simp add: tidy_local)
  with assms(1) show ?thesis unfolding r by (rule tidy_dict_set)
qed

lemma run_vercel_tidy:
  assumes "\<forall>e b. (e, b) \<in> set rs \<longrightarrow> tidy b" "fst (run_vercel a rs w) = Inr rs'"
  shows "\<forall>e b. (e, b) \<in> set rs' \<longrightarrow> tidy b"
proof (cases "\<exists>u. arg_vercel a = Some u \<and> u \<noteq> []")
  case False
  then show ?thesis using assms by (auto simp: run_vercel_def split: option.splits)
next
  case True
  then obtain u where u: "arg_vercel a = Some u" "u \<noteq> []" by blast
  from run_vercel_Inr[OF u assms(2)] obtain w' b where
    "fst (test_vercel_deployment u w') = Inr b" and r: "rs' = dict_set ''vercel'' b rs"
    by blast
  then have "tidy b" by (simp add: tidy_vercel)
  with assms(1) show ?thesis unfolding r by (rule tidy_dict_set)
qed

lemma run_both_tidy:
  assumes "\<forall>e b. (e, b) \<in> set rs \<longrightarrow> tidy b" "fst (run_both a rs w) = Inr rs'"
  shows "\<forall>e b. (e, b) \<in> set rs' \<longrightarrow> tidy b"
proof (cases "arg_both a")
  case False
  then show ?thesis using assms by (simp add: run_both_def)
next
  case True
  from run_both_Inr[OF True assms(2)] obtain w' b where
    "fst (test_vercel_deployment example_url w') = Inr b" and r: "rs' = dict_set ''vercel'' b rs"
    by blast
  then have "tidy b" by (simp add: tidy_vercel)
  with assms(1) show ?thesis unfolding r by (rule tidy_dict_set)
qed

lemma collect_tidy:
  assumes "fst (collect a w) = Inr rs"
  shows "\<forall>e b. (e, b) \<in> set rs \<longrightarrow> tidy b"
proof -
  from assms obtain r1 r2 w1 w2 where
    1: "fst (run_local a [] w) = Inr r1" and
    2: "fst (run_vercel a r1 w1) = Inr r2" and
    3: "fst (run_both a r2 w2) = Inr rs"
    unfolding collect_def by (auto simp: io_bind_fst_Inr)
  have "\<forall>e b. (e, b) \<in> set ([] :: results) \<longrightarrow> tidy b" by simp
  from run_local_tidy[OF this 1] have "\<forall>e b. (e, b) \<in> set r1 \<longrightarrow> tidy b" .
  from run_vercel_tidy[OF this 2] have "\<forall>e b. (e, b) \<in> set r2 \<longrightarrow> tidy b" .
  from run_both_tidy[OF this 3] show ?thesis .
qed

lemma summary_tests_completes:
  "(\<forall>k v. (k, v) \<in> set b \<longrightarrow> k = ''duration'' \<or> (\<exists>r. v = Probe r)) \<Longrightarrow>
     fst (summary_tests b w) = Inr ()"
proof (induction b arbitrary: w)
  case Nil
  then show ?case by simp
next
  case (Cons kv b)
  obtain k v where kv: "kv = (k, v)" by (cases kv)
  have t: "fst (summary_tests b w') = Inr ()" for w'
    using Cons by simp
  show ?case
  proof (cases "k = ''duration''")
    case True
    then show ?thesis using t by (simp add: kv)
  next
    case False
    with Cons.prems obtain r where "v = Probe r" by (auto simp: kv)
    then show ?thesis
      using False t by (simp add: kv io_bind_alt io_then_alt io_lift_def)
  qed
qed

lemma summary_envs_completes:
  "(\<forall>e b. (e, b) \<in> set rs \<longrightarrow> tidy b) \<Longrightarrow> fst (summary_envs rs w) = Inr ()"
proof (induction rs arbitrary: w)
  case Nil
  then show ?case by simp
next
  case (Cons eb rs)
  obtain e b where eb: "eb = (e, b)" by (cases eb)
  have "tidy b" using Cons.prems by (simp add: eb)
  then have t: "fst (summary_tests b w') = Inr ()" for w'
    by (intro summary_tests_completes) (simp add: tidy_def)
  have "fst (summary_envs rs w') = Inr ()" for w'
    using Cons by simp
  then show ?case
    using t by (simp add: eb io_then_alt)
qed

lemma vercel_guidance_completes:
  assumes "\<forall>e b. (e, b) \<in> set rs \<longrightarrow> tidy b"
  shows "fst (vercel_guidance rs w) = Inr ()"
proof (cases "map_of rs ''vercel''")
  case None
  then show ?thesis by (simp add: vercel_guidance_def)
next
  case (Some b)
  then have "(''vercel'', b) \<in> set rs" by (rule map_of_SomeD)
  with assms have "tidy b" by blast
  then obtain d where "get_duration b = Inr d" unfolding tidy_def by blast
  then show ?thesis
    using Some
    by (simp add: vercel_guidance_def io_then_alt io_bind_alt io_lift_def print_all_run)
qed

lemma summary_completes:
  assumes "\<forall>e b. (e, b) \<in> set rs \<longrightarrow> tidy b"
  shows "fst (summary rs w) = Inr ()"
  unfolding summary_def
  by (simp add: io_then_alt summary_envs_completes[OF assms] local_guidance_run
      vercel_guidance_completes[OF assms])

lemma main_completes:
  assumes "fst (collect a (snd (say rule50
        (snd (say (glyph_tube @ '' API Testing Suite for TDS Project2'') w))))) = Inr rs"
  shows "fst (main a w) = Inr ()"
  unfolding main_def
  using assms summary_completes[OF collect_tidy[OF assms]]
  by (simp add: io_then_alt io_bind_alt)

lemma main_guidance_of_collect:
  assumes "fst (collect a (snd (say rule50
        (snd (say (glyph_tube @ '' API Testing Suite for TDS Project2'') w))))) = Inr rs"
  shows "fst (main a w) = Inr ()"
    and "msg_local_passed \<in> set (printed (main a) w) \<longleftrightarrow>
      msg_local_passed \<in> set (printed (local_guidance rs) w)"
    and "msg_local_failed \<in> set (printed (main a) w) \<longleftrightarrow>
      msg_local_failed \<in> set (printed (local_guidance rs) w)"
    and "msg_cold_start d \<in> set (printed (main a) w) \<longleftrightarrow>
      msg_cold_start d \<in> set (printed (vercel_guidance rs) w)"
proof -
  show c: "fst (main a w) = Inr ()"
    using assms by (rule main_completes)
  from main_guidance_iff[OF c] obtain rs' where
    r: "fst (collect a (snd (say rule50
        (snd (say (glyph_tube @ '' API Testing Suite for TDS Project2'') w))))) = Inr rs'"
    and p: "msg_local_passed \<in> set (printed (main a) w) \<longleftrightarrow>
      msg_local_passed \<in> set (printed (local_guidance rs') w)"
    and f: "msg_local_failed \<in> set (printed (main a) w) \<longleftrightarrow>
      msg_local_failed \<in> set (printed (local_guidance rs') w)"
    and v: "\<And>d. msg_cold_start d \<in> set (printed (main a) w) \<longleftrightarrow>
      msg_cold_start d \<in> set (printed (vercel_guidance rs') w)"
    by blast
  from r assms have e: "rs' = rs" by simp
  show "msg_local_passed \<in> set (printed (main a) w) \<longleftrightarrow>
      msg_local_passed \<in> set (printed (local_guidance rs) w)"
    using p unfolding e .
  show "msg_local_failed \<in> set (printed (main a) w) \<longleftrightarrow>
      msg_local_failed \<in> set (printed (local_guidance rs) w)"
    using f unfolding e .
  show "msg_cold_start d \<in> set (printed (main a) w) \<longleftrightarrow>
      msg_cold_start d \<in> set (printed (vercel_guidance rs) w)"
    using v unfolding e .
qed

text \<open>Sample runs.\<close>

lemma local_collect_sample:
  "fst (collect local_args (snd (say rule50
        (snd (say (glyph_tube @ '' API Testing Suite for TDS Project2'') (demo_world srv_ok)))))) =
     Inr [(''local'', ok_local_bundle)]"
  by code_simp

lemma local_collect_down_sample:
  "fst (collect local_args (snd (say rule50
        (snd (say (glyph_tube @ '' API Testing Suite for TDS Project2'') (demo_world srv_down)))))) =
     Inr [(''local'', refused_bundle)]"
  by code_simp

lemma failed_summary_sample:
  "fst (summary [(''local'', failed_local_bundle)] (demo_world srv_ok)) = Inr ()"
  by code_simp

lemma vercel_collect_sample:
  "fst (collect vercel_only_args (snd (say rule50
        (snd (say (glyph_tube @ '' API Testing Suite for TDS Project2'') (demo_world srv_ok)))))) =
     Inr [(''vercel'', slow_vercel_bundle)]"
  using collect_sample_any[of "[[T (glyph_tube @ '' API Testing Suite for TDS Project2'')], [T rule50]]"]
  by (simp add: demo_world_def)
section \<open>The probes\<close>

text \<open>
  Claim C1, as amended.  Each of the three probes turns every exception of its HTTP call
  into a result and raises nothing to the caller: a transport error or timeout raised by the
  request, the \<open>HTTPError\<close> that \<open>raise_for_status\<close> raises for a status from 400 to 599, and a
  decode failure of \<open>response.json()\<close> all give the dict with status \<open>error\<close>, no \<open>data\<close>, and
  the text of that exception as \<open>error\<close>.  A response with any other status (2xx, and also
  1xx and 3xx, for which \<open>raise_for_status\<close> does not raise) whose body decodes gives the
  dict with status \<open>success\<close>, the decoded body as \<open>data\<close>, and no \<open>error\<close>.  For the main probe
  the HTTP call is reached once the workload file has been created.
\<close>

theorem probe_contract:
  "(\<exists>res. fst (test_health_endpoint base w) = Inr res) \<and>
   (fst (http w (health_request base) (clock w)) = Inl e \<longrightarrow>
      fst (test_health_endpoint base w) = Inr \<lparr>status = ''error'', data = None, error = Some (str_exc e)\<rparr>) \<and>
   (fst (http w (health_request base) (clock w)) = Inr r \<and> 400 \<le> status_code r \<and> status_code r < 600 \<longrightarrow>
      fst (test_health_endpoint base w) =
        Inr \<lparr>status = ''error'', data = None, error = Some (str_exc (Exc HTTPError (error_text r)))\<rparr>) \<and>
   (fst (http w (health_request base) (clock w)) = Inr r \<and> \<not> (400 \<le> status_code r \<and> status_code r < 600) \<and>
    loads w (body r) = Inl m \<longrightarrow>
      fst (test_health_endpoint base w) =
        Inr \<lparr>status = ''error'', data = None, error = Some (str_exc (Exc JSONDecodeError m))\<rparr>) \<and>
   (fst (http w (health_request base) (clock w)) = Inr r \<and> \<not> (400 \<le> status_code r \<and> status_code r < 600) \<and>
    loads w (body r) = Inr j \<longrightarrow>
      fst (test_health_endpoint base w) = Inr \<lparr>status = ''success'', data = Some j, error = None\<rparr>) \<and>
   (\<exists>res. fst (test_capabilities_endpoint base w) = Inr res) \<and>
   (fst (http w (capabilities_request base) (clock w)) = Inl e \<longrightarrow>
      fst (test_capabilities_endpoint base w) = Inr \<lparr>status = ''error'', data = None, error = Some (str_exc e)\<rparr>) \<and>
   (fst (http w (capabilities_request base) (clock w)) = Inr r \<and> 400 \<le> status_code r \<and> status_code r < 600 \<longrightarrow>
      fst (test_capabilities_endpoint base w) =
        Inr \<lparr>status = ''error'', data = None, error = Some (str_exc (Exc HTTPError (error_text r)))\<rparr>) \<and>
   (fst (http w (capabilities_request base) (clock w)) = Inr r \<and> \<not> (400 \<le> status_code r \<and> status_code r < 600) \<and>
    loads w (body r) = Inl m \<longrightarrow>
      fst (test_capabilities_endpoint base w) =
        Inr \<lparr>status = ''error'', data = None, error = Some (str_exc (Exc JSONDecodeError m))\<rparr>) \<and>
   (fst (http w (capabilities_request base) (clock w)) = Inr r \<and> \<not> (400 \<le> status_code r \<and> status_code r < 600) \<and>
    loads w (body r) = Inr j \<longrightarrow>
      fst (test_capabilities_endpoint base w) = Inr \<lparr>status = ''success'', data = Some j, error = None\<rparr>) \<and>
   (find (\<lambda>p. files w p = None) (tmp_names w) = Some p \<longrightarrow>
      (\<exists>res. fst (test_main_api_endpoint base w) = Inr res) \<and>
      (fst (http w (main_request base) (clock w)) = Inl e \<longrightarrow>
         fst (test_main_api_endpoint base w) = Inr \<lparr>status = ''error'', data = None, error = Some (str_exc e)\<rparr>) \<and>
      (fst (http w (main_request base) (clock w)) = Inr r \<and> 400 \<le> status_code r \<and> status_code r < 600 \<longrightarrow>
         fst (test_main_api_endpoint base w) =
           Inr \<lparr>status = ''error'', data = None, error = Some (str_exc (Exc HTTPError (error_text r)))\<rparr>) \<and>
      (fst (http w (main_request base) (clock w)) = Inr r \<and> \<not> (400 \<le> status_code r \<and> status_code r < 600) \<and>
       loads w (body r) = Inl m \<longrightarrow>
         fst (test_main_api_endpoint base w) =
           Inr \<lparr>status = ''error'', data = None, error = Some (str_exc (Exc JSONDecodeError m))\<rparr>) \<and>
      (fst (http w (main_request base) (clock w)) = Inr r \<and> \<not> (400 \<le> status_code r \<and> status_code r < 600) \<and>
       loads w (body r) = Inr j \<longrightarrow>
         fst (test_main_api_endpoint base w) = Inr \<lparr>status = ''success'', data = Some j, error = None\<rparr>))"
proof -
  have h: "fst (test_health_endpoint base w) =
      Inr (classify (loads w) (fst (http w (health_request base) (clock w))))"
    by (rule health_fst)
  have c: "fst (test_capabilities_endpoint base w) =
      Inr (classify (loads w) (fst (http w (capabilities_request base) (clock w))))"
    by (rule capabilities_fst)
  have m: "fst (test_main_api_endpoint base w) =
      Inr (classify (loads w) (fst (http w (main_request base) (clock w))))"
    if "find (\<lambda>p. files w p = None) (tmp_names w) = Some p"
    using that by (rule main_fst)
  show ?thesis
    unfolding h c
    by (intro conjI impI; (simp only: m)?; (elim conjE)?; simp add: classify_cases)
qed

theorem probe_contract_witness:
  "find (\<lambda>p. files (demo_world srv_down) p = None) (tmp_names (demo_world srv_down)) =
     Some ''/tmp/tmpq.txt'' \<and>
   fst (test_health_endpoint local_url (demo_world srv_down)) =
     Inr \<lparr>status = ''error'', data = None, error = Some ''Connection refused''\<rparr> \<and>
   fst (test_capabilities_endpoint local_url (demo_world srv_down)) =
     Inr \<lparr>status = ''error'', data = None, error = Some ''Connection refused''\<rparr> \<and>
   fst (test_main_api_endpoint local_url (demo_world srv_down)) =
     Inr \<lparr>status = ''error'', data = None, error = Some ''Connection refused''\<rparr> \<and>
   fst (test_health_endpoint local_url (demo_world srv_500)) =
     Inr \<lparr>status = ''error'', data = None, error = Some ''500 Server Error: Internal Server Error''\<rparr> \<and>
   fst (test_capabilities_endpoint local_url (demo_world srv_500)) =
     Inr \<lparr>status = ''error'', data = None, error = Some ''500 Server Error: Internal Server Error''\<rparr> \<and>
   fst (test_main_api_endpoint local_url (demo_world srv_500)) =
     Inr \<lparr>status = ''error'', data = None, error = Some ''500 Server Error: Internal Server Error''\<rparr> \<and>
   fst (test_health_endpoint local_url (demo_world srv_html)) =
     Inr \<lparr>status = ''error'', data = None, error = Some ''Expecting value: line 1 column 1 (char 0)''\<rparr> \<and>
   fst (test_capabilities_endpoint local_url (demo_world srv_html)) =
     Inr \<lparr>status = ''error'', data = None, error = Some ''Expecting value: line 1 column 1 (char 0)''\<rparr> \<and>
   fst (test_main_api_endpoint local_url (demo_world srv_html)) =
     Inr \<lparr>status = ''error'', data = None, error = Some ''Expecting value: line 1 column 1 (char 0)''\<rparr> \<and>
   fst (test_health_endpoint local_url (demo_world srv_pair)) =
     Inr \<lparr>status = ''success'', data = Some (JArr [JInt 1, JInt 2]), error = None\<rparr> \<and>
   fst (test_capabilities_endpoint local_url (demo_world srv_pair)) =
     Inr \<lparr>status = ''success'', data = Some (JArr [JInt 1, JInt 2]), error = None\<rparr> \<and>
   fst (test_main_api_endpoint local_url (demo_world srv_pair)) =
     Inr \<lparr>status = ''success'', data = Some (JArr [JInt 1, JInt 2]), error = None\<rparr> \<and>
   fst (test_health_endpoint local_url (demo_world srv_300)) =
     Inr \<lparr>status = ''success'', data = Some (JObj []), error = None\<rparr> \<and>
   fst (test_capabilities_endpoint local_url (demo_world srv_300)) =
     Inr \<lparr>status = ''success'', data = Some (JObj []), error = None\<rparr> \<and>
   fst (test_main_api_endpoint local_url (demo_world srv_300)) =
     Inr \<lparr>status = ''success'', data = Some (JObj []), error = None\<rparr>"
proof -
  have 1: "fst (test_health_endpoint local_url (demo_world srv_down)) =
       Inr \<lparr>status = ''error'', data = None, error = Some ''Connection refused''\<rparr> \<and>
     fst (test_capabilities_endpoint local_url (demo_world srv_down)) =
       Inr \<lparr>status = ''error'', data = None, error = Some ''Connection refused''\<rparr> \<and>
     fst (test_main_api_endpoint local_url (demo_world srv_down)) =
       Inr \<lparr>status = ''error'', data = None, error = Some ''Connection refused''\<rparr>"
    using probe_contract[of local_url "demo_world srv_down" "Exc RequestException ''Connection refused''" _ _ _ "''/tmp/tmpq.txt''"]
    by (simp add: demo_defs)
  have 2: "fst (test_health_endpoint local_url (demo_world srv_500)) =
       Inr \<lparr>status = ''error'', data = None, error = Some ''500 Server Error: Internal Server Error''\<rparr> \<and>
     fst (test_capabilities_endpoint local_url (demo_world srv_500)) =
       Inr \<lparr>status = ''error'', data = None, error = Some ''500 Server Error: Internal Server Error''\<rparr> \<and>
     fst (test_main_api_endpoint local_url (demo_world srv_500)) =
       Inr \<lparr>status = ''error'', data = None, error = Some ''500 Server Error: Internal Server Error''\<rparr>"
    using probe_contract[of local_url "demo_world srv_500" _ "\<lparr>status_code = 500, error_text = ''500 Server Error: Internal Server Error'', body = ''{}''\<rparr>" _ _ "''/tmp/tmpq.txt''"]
    by (simp add: demo_defs)
  have 3: "fst (test_health_endpoint local_url (demo_world srv_html)) =
       Inr \<lparr>status = ''error'', data = None, error = Some ''Expecting value: line 1 column 1 (char 0)''\<rparr> \<and>
     fst (test_capabilities_endpoint local_url (demo_world srv_html)) =
       Inr \<lparr>status = ''error'', data = None, error = Some ''Expecting value: line 1 column 1 (char 0)''\<rparr> \<and>
     fst (test_main_api_endpoint local_url (demo_world srv_html)) =
       Inr \<lparr>status = ''error'', data = None, error = Some ''Expecting value: line 1 column 1 (char 0)''\<rparr>"
    using probe_contract[of local_url "demo_world srv_html" _ "\<lparr>status_code = 200, error_text = '''', body = ''<html>''\<rparr>" "''Expecting value: line 1 column 1 (char 0)''" _ "''/tmp/tmpq.txt''"]
    by (simp add: demo_defs)
  have 4: "fst (test_health_endpoint local_url (demo_world srv_pair)) =
       Inr \<lparr>status = ''success'', data = Some (JArr [JInt 1, JInt 2]), error = None\<rparr> \<and>
     fst (test_capabilities_endpoint local_url (demo_world srv_pair)) =
       Inr \<lparr>status = ''success'', data = Some (JArr [JInt 1, JInt 2]), error = None\<rparr> \<and>
     fst (test_main_api_endpoint local_url (demo_world srv_pair)) =
       Inr \<lparr>status = ''success'', data = Some (JArr [JInt 1, JInt 2]), error = None\<rparr>"
    using probe_contract[of local_url "demo_world srv_pair" _ "\<lparr>status_code = 200, error_text = '''', body = ''[1, 2]''\<rparr>" _ "JArr [JInt 1, JInt 2]" "''/tmp/tmpq.txt''"]
    by (simp add: demo_defs)
  have 5: "fst (test_health_endpoint local_url (demo_world srv_300)) =
       Inr \<lparr>status = ''success'', data = Some (JObj []), error = None\<rparr> \<and>
     fst (test_capabilities_endpoint local_url (demo_world srv_300)) =
       Inr \<lparr>status = ''success'', data = Some (JObj []), error = None\<rparr> \<and>
     fst (test_main_api_endpoint local_url (demo_world srv_300)) =
       Inr \<lparr>status = ''success'', data = Some (JObj []), error = None\<rparr>"
    using probe_contract[of local_url "demo_world srv_300" _ "\<lparr>status_code = 300, error_text = '''', body = ''{}''\<rparr>" _ "JObj []" "''/tmp/tmpq.txt''"]
    by (simp add: demo_defs)
  show ?thesis
    using 1 2 3 4 5 by (simp add: demo_defs)
qed

text \<open>
  The claim as first stated has every status outside 2xx end in an error result.
  \<open>raise_for_status\<close> raises for 4xx and 5xx only: a server answering 300 with the body \<open>{}\<close>
  gets status \<open>success\<close> from the health probe and from the main probe.
\<close>

theorem non_2xx_status_counterexample:
  "fst (http (demo_world srv_300) (health_request local_url) (clock (demo_world srv_300))) =
     Inr \<lparr>status_code = 300, error_text = '''', body = ''{}''\<rparr> \<and>
   fst (test_health_endpoint local_url (demo_world srv_300)) =
     Inr \<lparr>status = ''success'', data = Some (JObj []), error = None\<rparr> \<and>
   fst (http (demo_world srv_300) (main_request local_url) (clock (demo_world srv_300))) =
     Inr \<lparr>status_code = 300, error_text = '''', body = ''{}''\<rparr> \<and>
   fst (test_main_api_endpoint local_url (demo_world srv_300)) =
     Inr \<lparr>status = ''success'', data = Some (JObj []), error = None\<rparr>"
proof -
  have f: "find (\<lambda>p. files (demo_world srv_300) p = None) (tmp_names (demo_world srv_300)) =
      Some ''/tmp/tmpq.txt''"
    by (simp add: demo_defs)
  show ?thesis
    using health_fst[of local_url "demo_world srv_300"] main_fst[OF f, of local_url]
    by (simp add: classify_def demo_defs)
qed

text \<open>
  Claim C6, as amended.  Every result a probe returns has exactly one of the keys \<open>data\<close>
  and \<open>error\<close>, as its status says: a \<open>success\<close> result has no \<open>error\<close> and its \<open>data\<close> is the
  decoded body of the response; an \<open>error\<close> result has no \<open>data\<close> and its \<open>error\<close> is the text
  of the exception the HTTP call raised (the request's own, the \<open>HTTPError\<close> of a 4xx or 5xx
  status, or the decode failure).  The decoded body is whatever the decoder returns, \<open>None\<close>
  for the body \<open>null\<close> included.  The health and capabilities probes always return a result;
  the main probe does whenever it returns.
\<close>

theorem probe_result_invariant:
  "(\<exists>res. fst (test_health_endpoint base w) = Inr res \<and>
      (status res = ''success'' \<and> error res = None \<and>
         (\<exists>r j. fst (http w (health_request base) (clock w)) = Inr r \<and> loads w (body r) = Inr j \<and> data res = Some j) \<or>
       status res = ''error'' \<and> data res = None \<and>
         (\<exists>e. error res = Some (str_exc e) \<and>
            (fst (http w (health_request base) (clock w)) = Inl e \<or>
             (\<exists>r. fst (http w (health_request base) (clock w)) = Inr r \<and> 400 \<le> status_code r \<and> status_code r < 600 \<and>
                  e = Exc HTTPError (error_text r)) \<or>
             (\<exists>r m. fst (http w (health_request base) (clock w)) = Inr r \<and> loads w (body r) = Inl m \<and>
                  e = Exc JSONDecodeError m))))) \<and>
   (\<exists>res. fst (test_capabilities_endpoint base w) = Inr res \<and>
      (status res = ''success'' \<and> error res = None \<and>
         (\<exists>r j. fst (http w (capabilities_request base) (clock w)) = Inr r \<and> loads w (body r) = Inr j \<and> data res = Some j) \<or>
       status res = ''error'' \<and> data res = None \<and>
         (\<exists>e. error res = Some (str_exc e) \<and>
            (fst (http w (capabilities_request base) (clock w)) = Inl e \<or>
             (\<exists>r. fst (http w (capabilities_request base) (clock w)) = Inr r \<and> 400 \<le> status_code r \<and> status_code r < 600 \<and>
                  e = Exc HTTPError (error_text r)) \<or>
             (\<exists>r m. fst (http w (capabilities_request base) (clock w)) = Inr r \<and> loads w (body r) = Inl m \<and>
                  e = Exc JSONDecodeError m))))) \<and>
   (fst (test_main_api_endpoint base w) = Inr res \<longrightarrow>
      (status res = ''success'' \<and> error res = None \<and>
         (\<exists>r j. fst (http w (main_request base) (clock w)) = Inr r \<and> loads w (body r) = Inr j \<and> data res = Some j) \<or>
       status res = ''error'' \<and> data res = None \<and>
         (\<exists>e. error res = Some (str_exc e) \<and>
            (fst (http w (main_request base) (clock w)) = Inl e \<or>
             (\<exists>r. fst (http w (main_request base) (clock w)) = Inr r \<and> 400 \<le> status_code r \<and> status_code r < 600 \<and>
                  e = Exc HTTPError (error_text r)) \<or>
             (\<exists>r m. fst (http w (main_request base) (clock w)) = Inr r \<and> loads w (body r) = Inl m \<and>
                  e = Exc JSONDecodeError m)))))"
proof -
  have k: "status (classify dec x) = ''success'' \<and> error (classify dec x) = None \<and>
      (\<exists>r j. x = Inr r \<and> dec (body r) = Inr j \<and> data (classify dec x) = Some j) \<or>
    status (classify dec x) = ''error'' \<and> data (classify dec x) = None \<and>
      (\<exists>e. error (classify dec x) = Some (str_exc e) \<and>
         (x = Inl e \<or>
          (\<exists>r. x = Inr r \<and> 400 \<le> status_code r \<and> status_code r < 600 \<and>
               e = Exc HTTPError (error_text r)) \<or>
          (\<exists>r m. x = Inr r \<and> dec (body r) = Inl m \<and> e = Exc JSONDecodeError m)))"
    for dec x
  proof (cases x)
    case (Inl e)
    then show ?thesis
      by (auto simp: classify_def)
  next
    case (Inr r)
    show ?thesis
    proof (cases "400 \<le> status_code r \<and> status_code r < 600")
      case True
      then show ?thesis
        using Inr
        by (auto simp: classify_def intro!: exI[of _ "Exc HTTPError (error_text r)"])
    next
      case False
      show ?thesis
      proof (cases "dec (body r)")
        case (Inl m)
        then show ?thesis
          using Inr False
          by (auto simp: classify_def intro!: exI[of _ "Exc JSONDecodeError m"])
      next
        case j: (Inr j)
        then show ?thesis
          using Inr False by (auto simp: classify_def)
      qed
    qed
  qed
  have m: "res = classify (loads w) (fst (http w (main_request base) (clock w)))"
    if "fst (test_main_api_endpoint base w) = Inr res"
    using that by (rule main_returns(1))
  show ?thesis
    unfolding health_fst capabilities_fst
  proof (intro conjI impI)
    show "\<exists>res. Inr (classify (loads w) (fst (http w (health_request base) (clock w)))) = Inr res \<and>
      (status res = ''success'' \<and> error res = None \<and>
         (\<exists>r j. fst (http w (health_request base) (clock w)) = Inr r \<and>
            loads w (body r) = Inr j \<and> data res = Some j) \<or>
       status res = ''error'' \<and> data res = None \<and>
         (\<exists>e. error res = Some (str_exc e) \<and>
            (fst (http w (health_request base) (clock w)) = Inl e \<or>
             (\<exists>r. fst (http w (health_request base) (clock w)) = Inr r \<and>
                  400 \<le> status_code r \<and> status_code r < 600 \<and>
                  e = Exc HTTPError (error_text r)) \<or>
             (\<exists>r m. fst (http w (health_request base) (clock w)) = Inr r \<and>
                  loads w (body r) = Inl m \<and> e = Exc JSONDecodeError m))))"
      using k[of "loads w" "fst (http w (health_request base) (clock w))"]
      by (intro exI[of _ "classify (loads w) (fst (http w (health_request base) (clock w)))"]
          conjI refl)
    show "\<exists>res. Inr (classify (loads w) (fst (http w (capabilities_request base) (clock w)))) =
          Inr res \<and>
      (status res = ''success'' \<and> error res = None \<and>
         (\<exists>r j. fst (http w (capabilities_request base) (clock w)) = Inr r \<and>
            loads w (body r) = Inr j \<and> data res = Some j) \<or>
       status res = ''error'' \<and> data res = None \<and>
         (\<exists>e. error res = Some (str_exc e) \<and>
            (fst (http w (capabilities_request base) (clock w)) = Inl e \<or>
             (\<exists>r. fst (http w (capabilities_request base) (clock w)) = Inr r \<and>
                  400 \<le> status_code r \<and> status_code r < 600 \<and>
                  e = Exc HTTPError (error_text r)) \<or>
             (\<exists>r m. fst (http w (capabilities_request base) (clock w)) = Inr r \<and>
                  loads w (body r) = Inl m \<and> e = Exc JSONDecodeError m))))"
      using k[of "loads w" "fst (http w (capabilities_request base) (clock w))"]
      by (intro exI[of _ "classify (loads w) (fst (http w (capabilities_request base) (clock w)))"]
          conjI refl)
  next
    assume "fst (test_main_api_endpoint base w) = Inr res"
    from m[OF this] k[of "loads w" "fst (http w (main_request base) (clock w))"]
    show "status res = ''success'' \<and> error res = None \<and>
         (\<exists>r j. fst (http w (main_request base) (clock w)) = Inr r \<and>
            loads w (body r) = Inr j \<and> data res = Some j) \<or>
       status res = ''error'' \<and> data res = None \<and>
         (\<exists>e. error res = Some (str_exc e) \<and>
            (fst (http w (main_request base) (clock w)) = Inl e \<or>
             (\<exists>r. fst (http w (main_request base) (clock w)) = Inr r \<and>
                  400 \<le> status_code r \<and> status_code r < 600 \<and>
                  e = Exc HTTPError (error_text r)) \<or>
             (\<exists>r m. fst (http w (main_request base) (clock w)) = Inr r \<and>
                  loads w (body r) = Inl m \<and> e = Exc JSONDecodeError m)))"
      by simp
  qed
qed

theorem probe_result_invariant_witness:
  "fst (test_main_api_endpoint local_url (demo_world srv_pair)) =
     Inr \<lparr>status = ''success'', data = Some (JArr [JInt 1, JInt 2]), error = None\<rparr> \<and>
   (\<exists>r j. fst (http (demo_world srv_pair) (main_request local_url)
               (clock (demo_world srv_pair))) = Inr r \<and>
      loads (demo_world srv_pair) (body r) = Inr j \<and>
      data \<lparr>status = ''success'', data = Some (JArr [JInt 1, JInt 2]), error = None\<rparr> =
        Some j) \<and>
   fst (test_main_api_endpoint local_url (demo_world srv_down)) = Inr refused_result \<and>
   (\<exists>e. error refused_result = Some (str_exc e) \<and>
      fst (http (demo_world srv_down) (main_request local_url) (clock (demo_world srv_down))) =
        Inl e)"
proof -
  have r: "fst (test_main_api_endpoint local_url (demo_world srv_pair)) =
     Inr \<lparr>status = ''success'', data = Some (JArr [JInt 1, JInt 2]), error = None\<rparr>"
    using main_fst[of "demo_world srv_pair" "''/tmp/tmpq.txt''" local_url]
    by (simp add: demo_defs classify_def)
  have r': "fst (test_main_api_endpoint local_url (demo_world srv_down)) = Inr refused_result"
    using main_fst[of "demo_world srv_down" "''/tmp/tmpq.txt''" local_url]
    by (simp add: demo_defs classify_def refused_result_def)
  have s: "status \<lparr>status = ''success'', data = Some (JArr [JInt 1, JInt 2]), error = None\<rparr> \<noteq>
      ''error''" "status refused_result \<noteq> ''success''"
    by (simp_all add: refused_result_def)
  have o: "fst (http (demo_world srv_down) (main_request local_url) (clock (demo_world srv_down))) =
      Inl (Exc RequestException ''Connection refused'')"
    by (simp add: demo_defs)
  from probe_result_invariant[of local_url "demo_world srv_pair"
      "\<lparr>status = ''success'', data = Some (JArr [JInt 1, JInt 2]), error = None\<rparr>"] r s(1)
  have 1: "\<exists>r j. fst (http (demo_world srv_pair) (main_request local_url)
               (clock (demo_world srv_pair))) = Inr r \<and>
      loads (demo_world srv_pair) (body r) = Inr j \<and>
      data \<lparr>status = ''success'', data = Some (JArr [JInt 1, JInt 2]), error = None\<rparr> =
        Some j"
    by blast
  from probe_result_invariant[of local_url "demo_world srv_down" refused_result] r' s(2)
  have "\<exists>e. error refused_result = Some (str_exc e) \<and>
         (fst (http (demo_world srv_down) (main_request local_url)
                (clock (demo_world srv_down))) = Inl e \<or>
          (\<exists>r. fst (http (demo_world srv_down) (main_request local_url)
                     (clock (demo_world srv_down))) = Inr r \<and>
               400 \<le> status_code r \<and> status_code r < 600 \<and>
               e = Exc HTTPError (error_text r)) \<or>
          (\<exists>r m. fst (http (demo_world srv_down) (main_request local_url)
                       (clock (demo_world srv_down))) = Inr r \<and>
               loads (demo_world srv_down) (body r) = Inl m \<and> e = Exc JSONDecodeError m))"
    by blast
  then have 2: "\<exists>e. error refused_result = Some (str_exc e) \<and>
      fst (http (demo_world srv_down) (main_request local_url) (clock (demo_world srv_down))) =
        Inl e"
    unfolding o by auto
  from r r' 1 2 show ?thesis by blast
qed

text \<open>
  The claim as first stated has every success result populated with data.  A server
  answering 200 with the body \<open>null\<close> gets a success result whose \<open>data\<close> is \<open>None\<close>, the decoded
  body, and which has no \<open>error\<close>: neither of the two is populated.
\<close>

theorem null_body_counterexample:
  "fst (http (demo_world srv_null) (health_request local_url) (clock (demo_world srv_null))) =
     Inr \<lparr>status_code = 200, error_text = '''', body = ''null''\<rparr> \<and>
   loads (demo_world srv_null) ''null'' = Inr JNull \<and>
   fst (test_health_endpoint local_url (demo_world srv_null)) =
     Inr \<lparr>status = ''success'', data = Some JNull, error = None\<rparr>"
  using health_fst[of local_url "demo_world srv_null"]
  by (simp add: classify_def demo_defs)
section \<open>The workload file\<close>

text \<open>
  Claim C2, as amended.  In every run of the main probe that creates its workload file, the
  function returns a probe result on every exit path of its \<open>try\<close> block and raises
  nothing, also when the deletion fails.  After it returns the temporary file no longer
  exists provided \<open>os.unlink\<close> succeeded; when the deletion is refused the file stays where
  it was written.  No other file is touched.
\<close>

theorem workload_file_cleanup:
  assumes "find (\<lambda>p. files w p = None) (tmp_names w) = Some p"
  shows "(\<exists>res. fst (test_main_api_endpoint base w) = Inr res) \<and>
     (\<not> locked w p \<longrightarrow> files (snd (test_main_api_endpoint base w)) p = None) \<and>
     (locked w p \<longrightarrow>
        files (snd (test_main_api_endpoint base w)) p = Some (File workload_content)) \<and>
     (\<forall>q. q \<noteq> p \<longrightarrow> files (snd (test_main_api_endpoint base w)) q = files w q)"
proof -
  have "files w p = None"
    using find_Some_holds[OF assms] .
  then show ?thesis
    by (simp add: main_fst[OF assms] main_files[OF assms])
qed

theorem workload_file_cleanup_witness:
  "find (\<lambda>p. files (demo_world srv_500) p = None) (tmp_names (demo_world srv_500)) =
     Some ''/tmp/tmpq.txt'' \<and>
   \<not> locked (demo_world srv_500) ''/tmp/tmpq.txt'' \<and>
   (\<exists>res. fst (test_main_api_endpoint local_url (demo_world srv_500)) = Inr res) \<and>
   files (snd (test_main_api_endpoint local_url (demo_world srv_500))) ''/tmp/tmpq.txt'' = None \<and>
   find (\<lambda>p. files locked_world p = None) (tmp_names locked_world) = Some ''/tmp/tmpq.txt'' \<and>
   locked locked_world ''/tmp/tmpq.txt'' \<and>
   (\<exists>res. fst (test_main_api_endpoint local_url locked_world) = Inr res) \<and>
   files (snd (test_main_api_endpoint local_url locked_world)) ''/tmp/tmpq.txt'' =
     Some (File workload_content)"
proof -
  have f: "find (\<lambda>p. files (demo_world srv_500) p = None) (tmp_names (demo_world srv_500)) =
     Some ''/tmp/tmpq.txt''"
    by (simp add: demo_defs)
  have l: "\<not> locked (demo_world srv_500) ''/tmp/tmpq.txt''"
    by (simp add: demo_defs)
  have f': "find (\<lambda>p. files locked_world p = None) (tmp_names locked_world) =
     Some ''/tmp/tmpq.txt''"
    by (simp add: locked_world_def demo_defs)
  have l': "locked locked_world ''/tmp/tmpq.txt''"
    by (simp add: locked_world_def)
  from workload_file_cleanup[OF f, of local_url] workload_file_cleanup[OF f', of local_url]
    f l f' l'
  show ?thesis
    by blast
qed

text \<open>
  The claim as first stated (after every return the file is gone) fails where the deletion
  is refused: the probe returns its result and the file is still there.
\<close>

theorem cleanup_all_paths_counterexample:
  "files locked_world ''/tmp/tmpq.txt'' = None \<and>
   fst (test_main_api_endpoint local_url locked_world) =
     Inr \<lparr>status = ''success'', data = Some (JObj []), error = None\<rparr> \<and>
   files (snd (test_main_api_endpoint local_url locked_world)) ''/tmp/tmpq.txt'' =
     Some (File workload_content)"
proof -
  have f: "find (\<lambda>p. files locked_world p = None) (tmp_names locked_world) =
      Some ''/tmp/tmpq.txt''"
    by (simp add: locked_world_def demo_defs)
  show ?thesis
    using main_fst[OF f, of local_url] main_files[OF f, of local_url]
    by (simp add: locked_world_def demo_defs classify_def success_result_def)
qed

section \<open>The artifact validator\<close>

lemma check_required_run:
  "\<exists>ls. check_required fs acc w =
     (Inr (acc @ filter (\<lambda>p. files w p = None) (map fst fs)), w\<lparr>stdout := stdout w @ ls\<rparr>)"
proof (induction fs arbitrary: acc w)
  case Nil
  show ?case by (simp add: io_ret_def) (rule exI[of _ "[]"], simp)
next
  case (Cons a fs)
  obtain file_path description where a: "a = (file_path, description)" by (cases a)
  show ?case
  proof (cases "files w file_path = None")
    case True
    let ?w1 = "w\<lparr>stdout := stdout w @
        [[T (glyph_fail @ '' '' @ file_path @ '' - '' @ description @ '' (MISSING)'')]]\<rparr>"
    from Cons.IH[of "acc @ [file_path]" ?w1] obtain ls where
      "check_required fs (acc @ [file_path]) ?w1 =
        (Inr ((acc @ [file_path]) @ filter (\<lambda>p. files ?w1 p = None) (map fst fs)),
         ?w1\<lparr>stdout := stdout ?w1 @ ls\<rparr>)" by blast
    then have "check_required (a # fs) acc w =
       (Inr (acc @ filter (\<lambda>p. files w p = None) (map fst (a # fs))),
        w\<lparr>stdout := stdout w @ ([[T (glyph_fail @ '' '' @ file_path @ '' - '' @ description @ '' (MISSING)'')]] @ ls)\<rparr>)"
      using True by (simp add: a io_bind_alt io_then_alt os_path_exists_def)
    then show ?thesis by blast
  next
    case False
    let ?w1 = "w\<lparr>stdout := stdout w @
        [[T (glyph_ok @ '' '' @ file_path @ '' - '' @ description)]]\<rparr>"
    from Cons.IH[of acc ?w1] obtain ls where
      "check_required fs acc ?w1 =
        (Inr (acc @ filter (\<lambda>p. files ?w1 p = None) (map fst fs)),
         ?w1\<lparr>stdout := stdout ?w1 @ ls\<rparr>)" by blast
    then have "check_required (a # fs) acc w =
       (Inr (acc @ filter (\<lambda>p. files w p = None) (map fst (a # fs))),
        w\<lparr>stdout := stdout w @ ([[T (glyph_ok @ '' '' @ file_path @ '' - '' @ description)]] @ ls)\<rparr>)"
      using False by (simp add: a io_bind_alt io_then_alt os_path_exists_def)
    then show ?thesis by blast
  qed
qed

lemma check_required_fst:
  "fst (check_required fs acc w) = Inr (acc @ filter (\<lambda>p. files w p = None) (map fst fs))"
  using check_required_run[of fs acc w] by auto

text \<open>Whenever the validator returns, its verdict says whether a required file is missing.\<close>

lemma validate_returns:
  assumes "fst (validate_vercel_files w) = Inr v"
  shows "v = (filter (\<lambda>p. files w p = None) (map fst required_files) = [])"
proof -
  let ?w1 = "w\<lparr>stdout := stdout w @ [[T (glyph_search @ '' Validating Vercel deployment files...'')]]\<rparr>"
  obtain ls where c: "check_required required_files [] ?w1 =
     (Inr ([] @ filter (\<lambda>p. files ?w1 p = None) (map fst required_files)),
      ?w1\<lparr>stdout := stdout ?w1 @ ls\<rparr>)"
    using check_required_run[of required_files "[]" ?w1] by blast
  have f: "filter (\<lambda>p. files ?w1 p = None) (map fst required_files) =
      filter (\<lambda>p. files w p = None) (map fst required_files)"
    by simp
  show ?thesis
    using assms
    unfolding validate_vercel_files_def
    by (simp add: io_then_alt io_bind_alt c[unfolded f, simplified] print_all_run
        split: sum.splits if_splits)
qed

lemma config_absent:
  "files w ''vercel.json'' = None \<Longrightarrow>
   check_vercel_json w = (Inr (), w\<lparr>stdout := stdout w @ [msg_config_not_found]\<rparr>)"
  by (simp add: check_vercel_json_def try_except_def io_bind_def open_read_def print_def)

lemma config_invalid:
  "files w ''vercel.json'' = Some (File t) \<Longrightarrow> loads w t = Inl m \<Longrightarrow>
   check_vercel_json w =
     (Inr (), w\<lparr>stdout := stdout w @ [msg_invalid_json (Exc JSONDecodeError m)]\<rparr>)"
  by (simp add: check_vercel_json_def try_except_def io_bind_def open_read_def print_def
      json_loads_def)

lemma config_object:
  "files w ''vercel.json'' = Some (File t) \<Longrightarrow> loads w t = Inr (JObj kvs) \<Longrightarrow>
   check_vercel_json w =
     (Inr (), w\<lparr>stdout := stdout w @
        [msg_valid_json,
         if ''builds'' \<in> set (map fst kvs) \<and> ''routes'' \<in> set (map fst kvs)
         then msg_has_sections else msg_missing_sections]\<rparr>)"
  by (simp add: check_vercel_json_def try_except_def io_bind_def io_then_def open_read_def
      print_def json_loads_def io_lift_def io_ret_def)

lemma config_not_container:
  "files w ''vercel.json'' = Some (File t) \<Longrightarrow> loads w t = Inr j \<Longrightarrow>
   py_contains ''builds'' j = Inl e \<Longrightarrow>
   check_vercel_json w = (Inl e, w\<lparr>stdout := stdout w @ [msg_valid_json]\<rparr>)"
  by (cases j)
     (auto simp: check_vercel_json_def try_except_def io_bind_def io_then_def open_read_def
      print_def json_loads_def io_lift_def io_ret_def)

lemma validate_raises:
  assumes "files w ''vercel.json'' = Some (File t)" and "loads w t = Inr j"
    and "py_contains ''builds'' j = Inl e"
  shows "\<exists>ls. validate_vercel_files w = (Inl e, w\<lparr>stdout := stdout w @ ls @ [msg_valid_json]\<rparr>)"
proof -
  let ?w1 = "w\<lparr>stdout := stdout w @ [[T (glyph_search @ '' Validating Vercel deployment files...'')]]\<rparr>"
  obtain ls where c: "check_required required_files [] ?w1 =
     (Inr ([] @ filter (\<lambda>p. files ?w1 p = None) (map fst required_files)),
      ?w1\<lparr>stdout := stdout ?w1 @ ls\<rparr>)"
    using check_required_run[of required_files "[]" ?w1] by blast
  let ?w2 = "?w1\<lparr>stdout := stdout ?w1 @ ls\<rparr>"
  have "check_vercel_json ?w2 = (Inl e, ?w2\<lparr>stdout := stdout ?w2 @ [msg_valid_json]\<rparr>)"
    using assms by (intro config_not_container[of _ t j]) simp_all
  then have "validate_vercel_files w = (Inl e, w\<lparr>stdout := stdout w @
       ([[T (glyph_search @ '' Validating Vercel deployment files...'')]] @ ls) @ [msg_valid_json]\<rparr>)"
    unfolding validate_vercel_files_def
    by (simp add: io_then_alt io_bind_alt c[simplified])
  then show ?thesis by blast
qed


text \<open>
  Claim C4 says that the validator returns \<open>True\<close> exactly when all six required files
  exist, the config and import checks never touching the verdict.  The code misses a case:
  the membership tests on the parsed config raise \<open>TypeError\<close> when \<open>vercel.json\<close> holds a
  JSON number, boolean or \<open>null\<close>, and no \<open>except\<close> clause catches it.  With all six files
  present and \<open>vercel.json\<close> holding \<open>42\<close> the validator raises instead of returning
  \<open>True\<close>.
\<close>

theorem validator_raises_with_all_files_present:
  "list_all (\<lambda>p. files (repo_world ''42'') p \<noteq> None) (map fst required_files) \<and>
   loads (repo_world ''42'') ''42'' = Inr (JInt 42) \<and>
   fst (validate_vercel_files (repo_world ''42'')) =
     Inl (Exc TypeError ''argument of type 'int' is not iterable'')"
proof -
  have "fst (validate_vercel_files (repo_world ''42'')) =
     Inl (Exc TypeError ''argument of type 'int' is not iterable'')"
    using validate_raises[of "repo_world ''42''" "''42''" "JInt 42"
        "Exc TypeError ''argument of type 'int' is not iterable''"]
    by (auto simp: repo_world_def repo_files_def demo_defs)
  then show ?thesis
    by (simp add: repo_world_def repo_files_def demo_defs required_files_def)
qed

text \<open>
  Claim C8 says that a \<open>vercel.json\<close> that parses is reported on for its two sections, and
  that no outcome of the config check changes the verdict.  The same missing case breaks it:
  for a file holding \<open>null\<close> the check prints that the syntax is valid and then raises
  \<open>TypeError\<close> out of the validator, with no report about \<open>builds\<close> and \<open>routes\<close> and no
  verdict.
\<close>

theorem config_check_raises_on_parsed_null:
  "files (repo_world ''null'') ''vercel.json'' = Some (File ''null'') \<and>
   loads (repo_world ''null'') ''null'' = Inr JNull \<and>
   check_vercel_json (repo_world ''null'') =
     (Inl (Exc TypeError ''argument of type 'NoneType' is not iterable''),
      (repo_world ''null'')\<lparr>stdout := [msg_valid_json]\<rparr>) \<and>
   fst (validate_vercel_files (repo_world ''null'')) =
     Inl (Exc TypeError ''argument of type 'NoneType' is not iterable'')"
proof -
  have f: "files (repo_world ''null'') ''vercel.json'' = Some (File ''null'')"
    and l: "loads (repo_world ''null'') ''null'' = Inr JNull"
    and s: "stdout (repo_world ''null'') = []"
    by (simp_all add: repo_world_def repo_files_def demo_defs)
  have p: "py_contains ''builds'' JNull =
      Inl (Exc TypeError ''argument of type 'NoneType' is not iterable'')"
    by simp
  from validate_raises[OF f l p]
  have v: "fst (validate_vercel_files (repo_world ''null'')) =
      Inl (Exc TypeError ''argument of type 'NoneType' is not iterable'')"
    by auto
  from config_not_container[OF f l p] f l v s show ?thesis
    by simp
qed
section \<open>The environment runners\<close>

text \<open>
  Claim C5 says that both runners run Health, Capabilities and Main in this order with no
  abort, and return all three results.  The runner does not stop at a probe that failed
  (\<open>local_server_survives_errors\<close>), and a bundle it returns holds the three results in
  that order, without a timing field for the local variant (\<open>local_bundle\<close>).  But it
  misses the case of a probe that succeeds with a body that is no JSON object: for a health
  endpoint answering 200 with the body \<open>[]\<close> the report after the health probe calls
  \<open>.get\<close> on a list, \<open>AttributeError\<close> leaves the runner, and neither the capabilities nor
  the main probe runs: the transcript ends after the first line of the health report, and
  the only time that passed is the health request's.
\<close>

theorem local_runner_aborts_on_list_body:
  "fst (http (demo_world srv_list) (health_request local_url) (clock (demo_world srv_list))) =
     Inr \<lparr>status_code = 200, error_text = '''', body = ''[]''\<rparr> \<and>
   loads (demo_world srv_list) ''[]'' = Inr (JArr []) \<and>
   fst (test_health_endpoint local_url (demo_world srv_list)) =
     Inr \<lparr>status = ''success'', data = Some (JArr []), error = None\<rparr> \<and>
   fst (test_local_server (demo_world srv_list)) = Inl (not_dict ''get'') \<and>
   clock (snd (test_local_server (demo_world srv_list))) = clock (demo_world srv_list) + 1 \<and>
   stdout (snd (test_local_server (demo_world srv_list))) =
     [[T (glyph_tube @ '' Testing local server at http://localhost:8000'')],
      [T (nl @ rule50)],
      [T ''LOCAL SERVER TESTS''],
      [T rule50],
      [T (glyph_hospital @ '' Testing health endpoint...'')],
      [T (glyph_ok @ '' Health check passed'')],
      [T ''Health: success'']]"
proof -
  have "stdout (snd (test_local_server (demo_world srv_list))) =
     [[T (glyph_tube @ '' Testing local server at http://localhost:8000'')],
      [T (nl @ rule50)],
      [T ''LOCAL SERVER TESTS''],
      [T rule50],
      [T (glyph_hospital @ '' Testing health endpoint...'')],
      [T (glyph_ok @ '' Health check passed'')],
      [T ''Health: success'']]"
    by code_simp
  then show ?thesis
    by (simp add: runner_eval srv_list_def)
qed
section \<open>The summary\<close>

text \<open>
  Claim C3.  The verdict of the summary on the local environment is a strict conjunction.
  The guidance block always completes.  In a run of \<open>summary\<close> that completes, and in every
  run of \<open>main\<close> whose runners returned (it then completes, and \<open>results\<close> is what they
  collected), the line "Local tests passed - ready for Vercel deployment" is among the lines
  printed exactly when \<open>results\<close> has a \<open>local\<close> bundle and every probe result in that bundle
  has status \<open>success\<close>; in every other case the line "Local tests failed - fix issues
  before deploying" is printed instead, in particular when some local probe has status
  \<open>error\<close>.
\<close>

theorem local_verdict_strict_and:
  "fst (local_guidance results w) = Inr () \<and>
   (msg_local_passed \<in> set (printed (local_guidance results) w) \<longleftrightarrow>
      (\<exists>b. map_of results ''local'' = Some b \<and>
           (\<forall>k r. (k, Probe r) \<in> set b \<longrightarrow> status r = ''success''))) \<and>
   (msg_local_failed \<in> set (printed (local_guidance results) w) \<longleftrightarrow>
      \<not> (\<exists>b. map_of results ''local'' = Some b \<and>
           (\<forall>k r. (k, Probe r) \<in> set b \<longrightarrow> status r = ''success''))) \<and>
   (fst (summary results w) = Inr () \<longrightarrow>
      (msg_local_passed \<in> set (printed (summary results) w) \<longleftrightarrow>
         (\<exists>b. map_of results ''local'' = Some b \<and>
              (\<forall>k r. (k, Probe r) \<in> set b \<longrightarrow> status r = ''success''))) \<and>
      (msg_local_failed \<in> set (printed (summary results) w) \<longleftrightarrow>
         \<not> (\<exists>b. map_of results ''local'' = Some b \<and>
              (\<forall>k r. (k, Probe r) \<in> set b \<longrightarrow> status r = ''success''))) \<and>
      (map_of results ''local'' = Some b \<and> (k, Probe r) \<in> set b \<and> status r = ''error'' \<longrightarrow>
         msg_local_failed \<in> set (printed (summary results) w) \<and>
         msg_local_passed \<notin> set (printed (summary results) w))) \<and>
   (fst (collect a (snd (say rule50
          (snd (say (glyph_tube @ '' API Testing Suite for TDS Project2'') w0))))) = Inr rs \<longrightarrow>
      fst (main a w0) = Inr () \<and>
      (msg_local_passed \<in> set (printed (main a) w0) \<longleftrightarrow>
         (\<exists>b. map_of rs ''local'' = Some b \<and>
              (\<forall>k r. (k, Probe r) \<in> set b \<longrightarrow> status r = ''success''))) \<and>
      (msg_local_failed \<in> set (printed (main a) w0) \<longleftrightarrow>
         \<not> (\<exists>b. map_of rs ''local'' = Some b \<and>
              (\<forall>k r. (k, Probe r) \<in> set b \<longrightarrow> status r = ''success''))))"
proof -
  have g: "fst (local_guidance results w) = Inr ()"
    by (simp add: local_guidance_run)
  note l = local_lines_iff[of results w]
  have s: "(msg_local_passed \<in> set (printed (summary results) w) \<longleftrightarrow>
         (\<exists>b. map_of results ''local'' = Some b \<and>
              (\<forall>k r. (k, Probe r) \<in> set b \<longrightarrow> status r = ''success''))) \<and>
      (msg_local_failed \<in> set (printed (summary results) w) \<longleftrightarrow>
         \<not> (\<exists>b. map_of results ''local'' = Some b \<and>
              (\<forall>k r. (k, Probe r) \<in> set b \<longrightarrow> status r = ''success''))) \<and>
      (map_of results ''local'' = Some b \<and> (k, Probe r) \<in> set b \<and> status r = ''error'' \<longrightarrow>
         msg_local_failed \<in> set (printed (summary results) w) \<and>
         msg_local_passed \<notin> set (printed (summary results) w))"
    if c: "fst (summary results w) = Inr ()"
  proof -
    note i = summary_local_iff(1,2)[OF c]
    have p: "msg_local_passed \<in> set (printed (summary results) w) \<longleftrightarrow>
         (\<exists>b. map_of results ''local'' = Some b \<and>
              (\<forall>k r. (k, Probe r) \<in> set b \<longrightarrow> status r = ''success''))"
      unfolding i(1) by (rule l(1))
    have f: "msg_local_failed \<in> set (printed (summary results) w) \<longleftrightarrow>
         \<not> (\<exists>b. map_of results ''local'' = Some b \<and>
              (\<forall>k r. (k, Probe r) \<in> set b \<longrightarrow> status r = ''success''))"
      unfolding i(2) by (rule l(2))
    have e: "msg_local_failed \<in> set (printed (summary results) w) \<and>
         msg_local_passed \<notin> set (printed (summary results) w)"
      if "map_of results ''local'' = Some b" "(k, Probe r) \<in> set b" "status r = ''error''"
    proof -
      have "status r \<noteq> ''success''"
        using that(3) by simp
      with that(1,2) have "\<not> (\<exists>b. map_of results ''local'' = Some b \<and>
           (\<forall>k r. (k, Probe r) \<in> set b \<longrightarrow> status r = ''success''))"
        by auto
      then show ?thesis using p f by blast
    qed
    show ?thesis using p f e by blast
  qed
  have m: "fst (main a w0) = Inr () \<and>
      (msg_local_passed \<in> set (printed (main a) w0) \<longleftrightarrow>
         (\<exists>b. map_of rs ''local'' = Some b \<and>
              (\<forall>k r. (k, Probe r) \<in> set b \<longrightarrow> status r = ''success''))) \<and>
      (msg_local_failed \<in> set (printed (main a) w0) \<longleftrightarrow>
         \<not> (\<exists>b. map_of rs ''local'' = Some b \<and>
              (\<forall>k r. (k, Probe r) \<in> set b \<longrightarrow> status r = ''success'')))"
    if c: "fst (collect a (snd (say rule50
          (snd (say (glyph_tube @ '' API Testing Suite for TDS Project2'') w0))))) = Inr rs"
  proof -
    note i = main_guidance_of_collect(1,2,3)[OF c]
    show ?thesis
      unfolding i(2) i(3) local_lines_iff using i(1) by simp
  qed
  show ?thesis
    using g l s m by blast
qed

theorem local_verdict_strict_and_witness:
  "fst (summary [(''local'', failed_local_bundle)] (demo_world srv_ok)) = Inr () \<and>
   map_of [(''local'', failed_local_bundle)] ''local'' = Some failed_local_bundle \<and>
   (''main_api'', Probe refused_result) \<in> set failed_local_bundle \<and>
   status refused_result = ''error'' \<and>
   msg_local_failed \<in>
     set (printed (summary [(''local'', failed_local_bundle)]) (demo_world srv_ok)) \<and>
   msg_local_passed \<notin>
     set (printed (summary [(''local'', failed_local_bundle)]) (demo_world srv_ok)) \<and>
   fst (collect local_args (snd (say rule50
        (snd (say (glyph_tube @ '' API Testing Suite for TDS Project2'') (demo_world srv_ok)))))) =
     Inr [(''local'', ok_local_bundle)] \<and>
   fst (main local_args (demo_world srv_ok)) = Inr () \<and>
   msg_local_passed \<in> set (printed (main local_args) (demo_world srv_ok)) \<and>
   msg_local_failed \<notin> set (printed (main local_args) (demo_world srv_ok)) \<and>
   fst (collect local_args (snd (say rule50
        (snd (say (glyph_tube @ '' API Testing Suite for TDS Project2'') (demo_world srv_down)))))) =
     Inr [(''local'', refused_bundle)] \<and>
   fst (main local_args (demo_world srv_down)) = Inr () \<and>
   msg_local_failed \<in> set (printed (main local_args) (demo_world srv_down)) \<and>
   msg_local_passed \<notin> set (printed (main local_args) (demo_world srv_down))"
proof -
  have h: "map_of [(''local'', failed_local_bundle)] ''local'' = Some failed_local_bundle \<and>
      (''main_api'', Probe refused_result) \<in> set failed_local_bundle \<and>
      status refused_result = ''error''"
    by (simp add: failed_local_bundle_def refused_result_def)
  have ok: "\<exists>b. map_of [(''local'', ok_local_bundle)] ''local'' = Some b \<and>
      (\<forall>k r. (k, Probe r) \<in> set b \<longrightarrow> status r = ''success'')"
    by (auto simp: ok_local_bundle_def ok_result_def)
  from local_verdict_strict_and[of "[(''local'', failed_local_bundle)]" "demo_world srv_ok"
        failed_local_bundle "''main_api''" refused_result local_args "demo_world srv_ok"
        "[(''local'', ok_local_bundle)]"]
      h failed_summary_sample local_collect_sample ok
  have 1: "msg_local_failed \<in>
       set (printed (summary [(''local'', failed_local_bundle)]) (demo_world srv_ok)) \<and>
     msg_local_passed \<notin>
       set (printed (summary [(''local'', failed_local_bundle)]) (demo_world srv_ok)) \<and>
     fst (main local_args (demo_world srv_ok)) = Inr () \<and>
     msg_local_passed \<in> set (printed (main local_args) (demo_world srv_ok)) \<and>
     msg_local_failed \<notin> set (printed (main local_args) (demo_world srv_ok))"
    by blast
  have down: "\<not> (\<exists>b. map_of [(''local'', refused_bundle)] ''local'' = Some b \<and>
      (\<forall>k r. (k, Probe r) \<in> set b \<longrightarrow> status r = ''success''))"
    by (auto simp: refused_bundle_def refused_result_def)
  from local_verdict_strict_and[of "[]" "demo_world srv_down"
        "[]" "[]" refused_result local_args "demo_world srv_down" "[(''local'', refused_bundle)]"]
      local_collect_down_sample down
  have 2: "fst (main local_args (demo_world srv_down)) = Inr () \<and>
     msg_local_failed \<in> set (printed (main local_args) (demo_world srv_down)) \<and>
     msg_local_passed \<notin> set (printed (main local_args) (demo_world srv_down))"
    by blast
  show ?thesis
    using h failed_summary_sample local_collect_sample local_collect_down_sample 1 2
    by blast
qed

text \<open>
  Claim C7.  When the remote runner returns a bundle, its \<open>duration\<close> entry is the time the
  main probe's request took, and nothing else: the health and capabilities requests also
  moved the clock, by their own latencies, and are not counted.  In a run of \<open>summary\<close> that
  completes, and in every run of \<open>main\<close> whose runners returned (it then completes, and
  \<open>results\<close> is what they collected), the cold start line for \<open>d\<close> seconds is among the lines
  printed exactly when \<open>results\<close> has a \<open>vercel\<close> bundle whose probe results all have status
  \<open>success\<close> and whose recorded duration is \<open>d\<close>, strictly greater than 10.
\<close>

theorem remote_duration_and_cold_start:
  "(fst (test_vercel_deployment u w) = Inr b \<longrightarrow>
      map_of b ''duration'' =
        Some (Scalar (snd (http w (main_request u)
          (clock w + snd (http w (health_request u) (clock w)) +
           snd (http w (capabilities_request u)
                  (clock w + snd (http w (health_request u) (clock w)))))))) \<and>
      clock (snd (test_vercel_deployment u w)) =
        clock w + snd (http w (health_request u) (clock w)) +
        snd (http w (capabilities_request u)
               (clock w + snd (http w (health_request u) (clock w)))) +
        snd (http w (main_request u)
          (clock w + snd (http w (health_request u) (clock w)) +
           snd (http w (capabilities_request u)
                  (clock w + snd (http w (health_request u) (clock w))))))) \<and>
   ((\<exists>d. msg_cold_start d \<in> set (printed (vercel_guidance results) w')) \<longleftrightarrow>
      (\<exists>b d. map_of results ''vercel'' = Some b \<and>
         (\<forall>k r. (k, Probe r) \<in> set b \<longrightarrow> status r = ''success'') \<and>
         map_of b ''duration'' = Some (Scalar d) \<and> 10 < d)) \<and>
   (fst (summary results w') = Inr () \<longrightarrow>
      (msg_cold_start d \<in> set (printed (summary results) w') \<longleftrightarrow>
         (\<exists>b. map_of results ''vercel'' = Some b \<and>
            (\<forall>k r. (k, Probe r) \<in> set b \<longrightarrow> status r = ''success'') \<and>
            map_of b ''duration'' = Some (Scalar d) \<and> 10 < d))) \<and>
   (fst (collect a (snd (say rule50
          (snd (say (glyph_tube @ '' API Testing Suite for TDS Project2'') w0))))) = Inr rs \<longrightarrow>
      fst (main a w0) = Inr () \<and>
      (msg_cold_start d \<in> set (printed (main a) w0) \<longleftrightarrow>
         (\<exists>b. map_of rs ''vercel'' = Some b \<and>
            (\<forall>k r. (k, Probe r) \<in> set b \<longrightarrow> status r = ''success'') \<and>
            map_of b ''duration'' = Some (Scalar d) \<and> 10 < d)))"
proof (intro conjI impI)
  assume r: "fst (test_vercel_deployment u w) = Inr b"
  show "map_of b ''duration'' =
        Some (Scalar (snd (http w (main_request u)
          (clock w + snd (http w (health_request u) (clock w)) +
           snd (http w (capabilities_request u)
                  (clock w + snd (http w (health_request u) (clock w))))))))"
    by (subst vercel_bundle[OF r]) simp
  show "clock (snd (test_vercel_deployment u w)) =
        clock w + snd (http w (health_request u) (clock w)) +
        snd (http w (capabilities_request u)
               (clock w + snd (http w (health_request u) (clock w)))) +
        snd (http w (main_request u)
          (clock w + snd (http w (health_request u) (clock w)) +
           snd (http w (capabilities_request u)
                  (clock w + snd (http w (health_request u) (clock w))))))"
    by (rule vercel_returns_clock[OF r])
next
  show "(\<exists>d. msg_cold_start d \<in> set (printed (vercel_guidance results) w')) \<longleftrightarrow>
      (\<exists>b d. map_of results ''vercel'' = Some b \<and>
         (\<forall>k r. (k, Probe r) \<in> set b \<longrightarrow> status r = ''success'') \<and>
         map_of b ''duration'' = Some (Scalar d) \<and> 10 < d)"
    unfolding printed_vercel_guidance by (rule cold_start_printed_iff)
next
  assume c: "fst (summary results w') = Inr ()"
  show "msg_cold_start d \<in> set (printed (summary results) w') \<longleftrightarrow>
         (\<exists>b. map_of results ''vercel'' = Some b \<and>
            (\<forall>k r. (k, Probe r) \<in> set b \<longrightarrow> status r = ''success'') \<and>
            map_of b ''duration'' = Some (Scalar d) \<and> 10 < d)"
    unfolding summary_local_iff(3)[OF c] by (rule cold_start_line_iff)
next
  assume c: "fst (collect a (snd (say rule50
          (snd (say (glyph_tube @ '' API Testing Suite for TDS Project2'') w0))))) = Inr rs"
  show "fst (main a w0) = Inr ()"
    by (rule main_guidance_of_collect(1)[OF c])
  show "msg_cold_start d \<in> set (printed (main a) w0) \<longleftrightarrow>
         (\<exists>b. map_of rs ''vercel'' = Some b \<and>
            (\<forall>k r. (k, Probe r) \<in> set b \<longrightarrow> status r = ''success'') \<and>
            map_of b ''duration'' = Some (Scalar d) \<and> 10 < d)"
    unfolding main_guidance_of_collect(4)[OF c] by (rule cold_start_line_iff)
qed

theorem remote_duration_and_cold_start_witness:
  "fst (test_vercel_deployment example_url (demo_world srv_ok)) = Inr slow_vercel_bundle \<and>
   map_of slow_vercel_bundle ''duration'' = Some (Scalar 12) \<and>
   clock (snd (test_vercel_deployment example_url (demo_world srv_ok))) =
     clock (demo_world srv_ok) + 1 + 1 + 12 \<and>
   fst (summary [(''vercel'', slow_vercel_bundle)] (demo_world srv_ok)) = Inr () \<and>
   msg_cold_start 12 \<in>
     set (printed (summary [(''vercel'', slow_vercel_bundle)]) (demo_world srv_ok)) \<and>
   fst (collect vercel_only_args (snd (say rule50
        (snd (say (glyph_tube @ '' API Testing Suite for TDS Project2'') (demo_world srv_ok)))))) =
     Inr [(''vercel'', slow_vercel_bundle)] \<and>
   fst (main vercel_only_args (demo_world srv_ok)) = Inr () \<and>
   msg_cold_start 12 \<in> set (printed (main vercel_only_args) (demo_world srv_ok)) \<and>
   fst (collect local_args (snd (say rule50
        (snd (say (glyph_tube @ '' API Testing Suite for TDS Project2'') (demo_world srv_ok)))))) =
     Inr [(''local'', ok_local_bundle)] \<and>
   msg_cold_start 12 \<notin> set (printed (main local_args) (demo_world srv_ok))"
proof -
  note t = remote_duration_and_cold_start[of example_url "demo_world srv_ok" slow_vercel_bundle
      "[(''vercel'', slow_vercel_bundle)]" "demo_world srv_ok" 12 vercel_only_args
      "demo_world srv_ok" "[(''vercel'', slow_vercel_bundle)]"]
  have c: "clock (snd (test_vercel_deployment example_url (demo_world srv_ok))) =
     clock (demo_world srv_ok) + 1 + 1 + 12"
    using t vercel_run_sample by (simp add: demo_defs)
  have d: "map_of slow_vercel_bundle ''duration'' = Some (Scalar 12)"
    by (simp add: slow_vercel_bundle_def)
  have e: "\<exists>b. map_of [(''vercel'', slow_vercel_bundle)] ''vercel'' = Some b \<and>
         (\<forall>k r. (k, Probe r) \<in> set b \<longrightarrow> status r = ''success'') \<and>
         map_of b ''duration'' = Some (Scalar 12) \<and> (10::real) < 12"
    by (intro exI[of _ slow_vercel_bundle])
       (auto simp: slow_vercel_bundle_def ok_result_def)
  have s: "msg_cold_start 12 \<in>
     set (printed (summary [(''vercel'', slow_vercel_bundle)]) (demo_world srv_ok))"
    using t summary_sample[of "demo_world srv_ok"] e by blast
  have m: "fst (main vercel_only_args (demo_world srv_ok)) = Inr () \<and>
     msg_cold_start 12 \<in> set (printed (main vercel_only_args) (demo_world srv_ok))"
    using t vercel_collect_sample e by blast
  have n: "\<not> (\<exists>b. map_of [(''local'', ok_local_bundle)] ''vercel'' = Some b \<and>
         (\<forall>k r. (k, Probe r) \<in> set b \<longrightarrow> status r = ''success'') \<and>
         map_of b ''duration'' = Some (Scalar 12) \<and> (10::real) < 12)"
    by simp
  have l: "msg_cold_start 12 \<notin> set (printed (main local_args) (demo_world srv_ok))"
    using remote_duration_and_cold_start[of example_url "demo_world srv_ok" slow_vercel_bundle
      "[(''vercel'', slow_vercel_bundle)]" "demo_world srv_ok" 12 local_args
      "demo_world srv_ok" "[(''local'', ok_local_bundle)]"] local_collect_sample n
    by blast
  show ?thesis
    using c d s m l vercel_run_sample summary_sample[of "demo_world srv_ok"]
      vercel_collect_sample local_collect_sample
    by simp
qed
section \<open>The entry point\<close>

text \<open>
  Claim C9.  With \<open>--vercel\<close> but neither \<open>--local\<close> nor \<open>--both\<close> the local runner is not
  called, \<open>results\<close> has no \<open>local\<close> key, and the guidance block still takes its failure
  branch: its condition asks for a \<open>local\<close> key that is all-success and every other case,
  absence included, prints "Local tests failed - fix issues before deploying".  A run of
  \<open>main\<close> that completes has that line on the terminal.
\<close>

theorem vercel_only_prints_local_failure:
  "\<not> arg_local a \<and> \<not> arg_both a \<longrightarrow>
     run_local a [] w = (Inr [], w) \<and>
     (fst (collect a w) = Inr results \<longrightarrow>
        map_of results ''local'' = None \<and>
        fst (local_guidance results w') = Inr () \<and>
        printed (local_guidance results) w' = local_failed_lines) \<and>
     (fst (main a w) = Inr () \<longrightarrow> msg_local_failed \<in> set (stdout (snd (main a w))))"
proof (intro impI conjI; (elim conjE)?)
  assume a: "\<not> arg_local a" "\<not> arg_both a"
  show "run_local a [] w = (Inr [], w)"
    using a by (rule run_local_skipped)
  {
    assume c: "fst (collect a w) = Inr results"
    show n: "map_of results ''local'' = None"
      using a c by (rule collect_without_local)
    show "fst (local_guidance results w') = Inr ()"
      by (simp add: local_guidance_run)
    show "printed (local_guidance results) w' = local_failed_lines"
      by (simp add: printed_local_guidance n)
  }
  {
    assume m: "fst (main a w) = Inr ()"
    let ?w1 = "snd (say rule50 (snd (say (glyph_tube @ '' API Testing Suite for TDS Project2'') w)))"
    from m obtain rs where c: "fst (collect a ?w1) = Inr rs"
      and s: "fst (summary rs (snd (collect a ?w1))) = Inr ()"
      unfolding main_def by (auto simp: io_then_fst_Inr io_bind_fst_Inr)
    have e: "snd (main a w) = snd (summary rs (snd (collect a ?w1)))"
      unfolding main_def using c by (simp add: snd_io_then_Inr snd_io_bind_Inr)
    have n: "map_of rs ''local'' = None"
      using a c by (rule collect_without_local)
    from summary_stdout[OF s] obtain pre where
      "stdout (snd (summary rs (snd (collect a ?w1)))) =
         pre @ printed (local_guidance rs) (snd (collect a ?w1)) @
         printed (vercel_guidance rs) (snd (collect a ?w1))" ..
    then show "msg_local_failed \<in> set (stdout (snd (main a w)))"
      unfolding e by (simp add: printed_local_guidance n local_lines_distinct)
  }
qed

theorem vercel_only_prints_local_failure_witness:
  "\<not> arg_local vercel_only_args \<and> \<not> arg_both vercel_only_args \<and>
   fst (collect vercel_only_args (demo_world srv_ok)) = Inr [(''vercel'', slow_vercel_bundle)] \<and>
   map_of [(''vercel'', slow_vercel_bundle)] ''local'' = None \<and>
   printed (local_guidance [(''vercel'', slow_vercel_bundle)]) (demo_world srv_ok) =
     local_failed_lines \<and>
   fst (main vercel_only_args (demo_world srv_ok)) = Inr () \<and>
   msg_local_failed \<in> set (stdout (snd (main vercel_only_args (demo_world srv_ok))))"
proof -
  have a: "\<not> arg_local vercel_only_args \<and> \<not> arg_both vercel_only_args"
    by (simp add: vercel_only_args_def)
  have m: "fst (main vercel_only_args (demo_world srv_ok)) = Inr ()"
  proof -
    have w: "snd (say l ((demo_world srv_ok)\<lparr>stdout := s\<rparr>)) =
      (demo_world srv_ok)\<lparr>stdout := s @ [[T l]]\<rparr>" for l s
      by (simp add: demo_world_def)
    have w0: "snd (say l (demo_world srv_ok)) = (demo_world srv_ok)\<lparr>stdout := [[T l]]\<rparr>" for l
      by (simp add: demo_world_def)
    show ?thesis
      by (simp add: main_def io_then_alt io_bind_alt w0 w collect_sample_any summary_sample)
  qed
  from vercel_only_prints_local_failure[of vercel_only_args "demo_world srv_ok"
      "[(''vercel'', slow_vercel_bundle)]" "demo_world srv_ok"] a collect_sample m
  show ?thesis by blast
qed



end
